theory Spec2Isabelle
  imports Complex_Main "HOL-Library.AList"
begin

section \<open>Conventions of the embedding\<close>

text \<open>
  Python floats are read as real numbers: the properties below use the order and the
  arithmetic of the price fields only through the comparisons the source writes.
  A Python \<open>dict\<close> keeps its keys in insertion order, and the source iterates over
  dictionaries, so a dictionary is an association list: \<open>map_of\<close> reads a key,
  \<open>AList.update\<close> assigns one (an existing key keeps its place, a new key goes last).
  Exceptions are values of \<open>error\<close>; a function that may raise returns \<open>error + 'a\<close>.
\<close>

type_synonym ('k, 'v) dict = "('k \<times> 'v) list"

datatype error =
    AttributeError
  | KeyError
  | TypeError
  | ValueError
  | ZeroDivisionError
  | RequestException

definition try_except :: "error + 'a \<Rightarrow> (error \<Rightarrow> error + 'a) \<Rightarrow> error + 'a" where
  "try_except body handler = (case body of Inl e \<Rightarrow> handler e | Inr v \<Rightarrow> Inr v)"

section \<open>price_monitor.py: data model\<close>

record PriceData =
  pd_symbol :: string
  price :: real
  bid :: "real option"
  ask :: "real option"
  volume_24h :: "real option"
  change_24h :: "real option"
  pd_timestamp :: string
  exchange :: string

record ArbitrageOpportunity =
  opp_symbol :: string
  buy_exchange :: string
  sell_exchange :: string
  buy_price :: real
  sell_price :: real
  profit_pct :: real
  profit_usd :: real
  opp_timestamp :: string

text \<open>\<open>{symbol: {exchange: PriceData}}\<close>, the shape of \<open>self.prices\<close> and of \<open>all_prices\<close>.\<close>

type_synonym quote_table = "(string, (string, PriceData) dict) dict"

section \<open>PriceMonitor.find_arbitrage\<close>

text \<open>
  The builtins \<open>max(xs, key=k)\<close> and \<open>min(xs, key=k)\<close> scan from the left and replace
  the running result only on a strict improvement, so the first extremal item wins.
\<close>

fun max_key :: "('a \<Rightarrow> real) \<Rightarrow> 'a \<Rightarrow> 'a list \<Rightarrow> 'a" where
  "max_key k best [] = best"
| "max_key k best (x # xs) = max_key k (if k x > k best then x else best) xs"

fun min_key :: "('a \<Rightarrow> real) \<Rightarrow> 'a \<Rightarrow> 'a list \<Rightarrow> 'a" where
  "min_key k best [] = best"
| "min_key k best (x # xs) = min_key k (if k x < k best then x else best) xs"

text \<open>
  \<open>sorted(xs, key=k, reverse=True)\<close>: a stable sort; with \<open>reverse=True\<close> the list is
  reversed, sorted stably in ascending order and reversed again.
\<close>

definition sorted_reverse :: "('a \<Rightarrow> real) \<Rightarrow> 'a list \<Rightarrow> 'a list" where
  "sorted_reverse k xs = rev (sort_key k (rev xs))"

text \<open>\<open>[(ex, pd.bid) for ex, pd in exchange_prices.items() if pd.bid]\<close> and its twin.\<close>

fun bids :: "(string, PriceData) dict \<Rightarrow> (string \<times> real) list" where
  "bids [] = []"
| "bids ((ex, pd) # rest) =
     (case bid pd of
        None \<Rightarrow> bids rest
      | Some b \<Rightarrow> if b \<noteq> 0 then (ex, b) # bids rest else bids rest)"

fun asks :: "(string, PriceData) dict \<Rightarrow> (string \<times> real) list" where
  "asks [] = []"
| "asks ((ex, pd) # rest) =
     (case ask pd of
        None \<Rightarrow> asks rest
      | Some a \<Rightarrow> if a \<noteq> 0 then (ex, a) # asks rest else asks rest)"

text \<open>
  The body of the loop over \<open>symbols\<close> for one symbol: \<open>None\<close> where the source
  continues or falls through without appending, \<open>Some opp\<close> where it appends.
  \<open>now\<close> is the reading of \<open>datetime.now().isoformat()\<close>.
  \<open>buy_price\<close> is never zero at the division, since \<open>asks\<close> keeps non-zero asks only.
\<close>

definition check_symbol ::
  "quote_table \<Rightarrow> real \<Rightarrow> string \<Rightarrow> string \<Rightarrow> ArbitrageOpportunity option" where
  "check_symbol prices min_profit_pct now symbol =
     (case map_of prices symbol of
        None \<Rightarrow> None
      | Some exchange_prices \<Rightarrow>
          if length exchange_prices < 2 then None
          else
            (case bids exchange_prices of
               [] \<Rightarrow> None
             | b # bs \<Rightarrow>
                 (case asks exchange_prices of
                    [] \<Rightarrow> None
                  | a # as \<Rightarrow>
                      let best_bid = max_key snd b bs;
                          best_ask = min_key snd a as;
                          buy_exchange = fst best_ask; buy_price = snd best_ask;
                          sell_exchange = fst best_bid; sell_price = snd best_bid
                      in
                        if sell_price > buy_price then
                          let profit_pct = ((sell_price - buy_price) / buy_price) * 100;
                              profit_usd = sell_price - buy_price
                          in
                            if profit_pct \<ge> min_profit_pct then
                              Some \<lparr> opp_symbol = symbol,
                                     buy_exchange = buy_exchange,
                                     sell_exchange = sell_exchange,
                                     buy_price = buy_price,
                                     sell_price = sell_price,
                                     profit_pct = profit_pct,
                                     profit_usd = profit_usd,
                                     opp_timestamp = now \<rparr>
                            else None
                        else None)))"

fun find_loop ::
  "quote_table \<Rightarrow> real \<Rightarrow> string \<Rightarrow> string list \<Rightarrow> ArbitrageOpportunity list
     \<Rightarrow> ArbitrageOpportunity list" where
  "find_loop prices min_profit_pct now [] opportunities = opportunities"
| "find_loop prices min_profit_pct now (symbol # symbols) opportunities =
     find_loop prices min_profit_pct now symbols
       (case check_symbol prices min_profit_pct now symbol of
          None \<Rightarrow> opportunities
        | Some opp \<Rightarrow> opportunities @ [opp])"

definition find_arbitrage ::
  "quote_table \<Rightarrow> string list \<Rightarrow> real \<Rightarrow> string \<Rightarrow> ArbitrageOpportunity list" where
  "find_arbitrage prices symbols min_profit_pct now =
     sorted_reverse profit_pct (find_loop prices min_profit_pct now symbols [])"

text \<open>Quote tables used to run the detector on concrete inputs.\<close>

definition quote :: "string \<Rightarrow> string \<Rightarrow> real \<Rightarrow> real \<Rightarrow> real \<Rightarrow> PriceData" where
  "quote symb ex p b a =
     \<lparr> pd_symbol = symb, price = p, bid = Some b, ask = Some a, volume_24h = None,
       change_24h = None, pd_timestamp = ''t0'', exchange = ex \<rparr>"

definition two_venue_table :: quote_table where
  "two_venue_table =
     [(''BTC/USDT'', [(''A'', quote ''BTC/USDT'' ''A'' 100 (1001/10) 100),
                      (''B'', quote ''BTC/USDT'' ''B'' 101 101 (201/2))])]"

definition self_spread_table :: quote_table where
  "self_spread_table =
     [(''BTC/USDT'', [(''A'', quote ''BTC/USDT'' ''A'' 100 101 100),
                      (''B'', quote ''BTC/USDT'' ''B'' 100 99 102)])]"


section \<open>PriceMonitor.fetch_all_prices\<close>

text \<open>
  An exchange adapter is called with the symbol list and returns a dictionary
  \<open>{symbol: PriceData}\<close>; what it returns in a given cycle depends on the network, so the
  adapters of a cycle are arguments of the model. The aggregator wraps each call in
  \<open>try\<close>, so the model lets an adapter raise as well.
\<close>

type_synonym adapter = "string list \<Rightarrow> error + (string, PriceData) dict"

text \<open>\<open>self.exchanges\<close> as built by \<open>__init__\<close>, in insertion order.\<close>

definition exchanges ::
  "adapter \<Rightarrow> adapter \<Rightarrow> adapter \<Rightarrow> adapter \<Rightarrow> adapter \<Rightarrow> (string, adapter) dict" where
  "exchanges fetch_binance fetch_coinbase fetch_kraken fetch_bybit fetch_kucoin =
     [(''binance'', fetch_binance), (''coinbase'', fetch_coinbase), (''kraken'', fetch_kraken),
      (''bybit'', fetch_bybit), (''kucoin'', fetch_kucoin)]"

text \<open>
  \<open>table[symbol][exchange_name] = price_data\<close> on a \<open>defaultdict(dict)\<close>: a missing
  symbol starts from the empty dictionary.
\<close>

definition set_quote :: "quote_table \<Rightarrow> string \<Rightarrow> string \<Rightarrow> PriceData \<Rightarrow> quote_table" where
  "set_quote table symbol exchange_name price_data =
     AList.update symbol
       (AList.update exchange_name price_data
          (case map_of table symbol of None \<Rightarrow> [] | Some d \<Rightarrow> d))
       table"

text \<open>Reading \<open>table[symbol][exchange_name]\<close>, \<open>None\<close> where either key is missing.\<close>

definition quote_at :: "quote_table \<Rightarrow> string \<Rightarrow> string \<Rightarrow> PriceData option" where
  "quote_at table symbol exchange_name =
     (case map_of table symbol of None \<Rightarrow> None | Some d \<Rightarrow> map_of d exchange_name)"

text \<open>
  The inner loop \<open>for symbol, price_data in prices.items()\<close>; the pair carried along is
  \<open>(all_prices, self.prices)\<close>.
\<close>

fun merge_prices ::
  "string \<Rightarrow> (string, PriceData) dict \<Rightarrow> quote_table \<times> quote_table
     \<Rightarrow> quote_table \<times> quote_table" where
  "merge_prices exchange_name [] (all_prices, self_prices) = (all_prices, self_prices)"
| "merge_prices exchange_name ((symbol, price_data) # rest) (all_prices, self_prices) =
     merge_prices exchange_name rest
       (set_quote all_prices symbol exchange_name price_data,
        set_quote self_prices symbol exchange_name price_data)"

text \<open>
  The loop over \<open>self.exchanges.items()\<close>. The handler of the \<open>try\<close> prints and goes on
  with the tables as they are; nothing outside the \<open>try\<close> can raise.
\<close>

fun fetch_loop ::
  "(string, adapter) dict \<Rightarrow> string list \<Rightarrow> quote_table \<times> quote_table
     \<Rightarrow> error + quote_table \<times> quote_table" where
  "fetch_loop [] symbols tables = Inr tables"
| "fetch_loop ((exchange_name, fetch_func) # rest) symbols tables =
     (case try_except
             (case fetch_func symbols of
                Inl e \<Rightarrow> Inl e
              | Inr prices \<Rightarrow> Inr (merge_prices exchange_name prices tables))
             (\<lambda>e. Inr tables)
      of Inl e \<Rightarrow> Inl e
       | Inr tables' \<Rightarrow> fetch_loop rest symbols tables')"

text \<open>
  \<open>fetch_all_prices\<close> takes \<open>self.prices\<close> and returns the fresh \<open>all_prices\<close>
  together with the updated \<open>self.prices\<close>.
\<close>

definition fetch_all_prices ::
  "(string, adapter) dict \<Rightarrow> quote_table \<Rightarrow> string list \<Rightarrow> error + quote_table \<times> quote_table" where
  "fetch_all_prices exchs self_prices symbols = fetch_loop exchs symbols ([], self_prices)"

subsection \<open>The Binance adapter\<close>

text \<open>
  The reply of \<open>requests.get\<close> is an argument: the call raises, or gives a status code and
  a body whose \<open>json()\<close> raises or is a list of items. A field of an item is missing,
  present but not convertible by \<open>float\<close>, or a number.
\<close>

datatype field = Missing | Malformed | Num real

record binance_item =
  item_symbol :: "string option"
  lastPrice :: field
  bidPrice :: field
  askPrice :: field
  volume :: field
  priceChangePercent :: field

datatype http_response = Response nat "error + binance_item list"

text \<open>\<open>float(item[k])\<close> and \<open>float(item.get(k, 0))\<close>.\<close>

definition float_item :: "field \<Rightarrow> error + real" where
  "float_item f = (case f of Missing \<Rightarrow> Inl KeyError | Malformed \<Rightarrow> Inl ValueError | Num r \<Rightarrow> Inr r)"

definition float_get :: "field \<Rightarrow> real \<Rightarrow> error + real" where
  "float_get f d = (case f of Missing \<Rightarrow> Inr d | Malformed \<Rightarrow> Inl ValueError | Num r \<Rightarrow> Inr r)"

text \<open>One item of the reply: the \<open>PriceData\<close> built from it, or the exception raised.\<close>

definition binance_price_data :: "string \<Rightarrow> binance_item \<Rightarrow> error + string \<times> PriceData" where
  "binance_price_data now item =
     (case item_symbol item of
        None \<Rightarrow> Inl KeyError
      | Some raw \<Rightarrow>
          let symbol = take (length raw - 4) raw @ ''/'' @ drop (length raw - 4) raw in
          (case float_item (lastPrice item) of Inl e \<Rightarrow> Inl e | Inr p \<Rightarrow>
           case float_get (bidPrice item) 0 of Inl e \<Rightarrow> Inl e | Inr b \<Rightarrow>
           case float_get (askPrice item) 0 of Inl e \<Rightarrow> Inl e | Inr a \<Rightarrow>
           case float_item (volume item) of Inl e \<Rightarrow> Inl e | Inr v \<Rightarrow>
           case float_item (priceChangePercent item) of Inl e \<Rightarrow> Inl e | Inr c \<Rightarrow>
             Inr (symbol,
                  \<lparr> pd_symbol = symbol, price = p, bid = Some b, ask = Some a,
                    volume_24h = Some v, change_24h = Some c, pd_timestamp = now,
                    exchange = ''binance'' \<rparr>)))"

text \<open>
  The loop over the items inside the \<open>try\<close>: an exception leaves \<open>results\<close> as filled so
  far and is handed to the handler.
\<close>

fun binance_items ::
  "string \<Rightarrow> binance_item list \<Rightarrow> (string, PriceData) dict \<Rightarrow> (string, PriceData) dict \<times> error option" where
  "binance_items now [] results = (results, None)"
| "binance_items now (item # rest) results =
     (case binance_price_data now item of
        Inl e \<Rightarrow> (results, Some e)
      | Inr (symbol, pd) \<Rightarrow> binance_items now rest (AList.update symbol pd results))"

text \<open>
  \<open>_fetch_binance\<close>: whatever happens inside the \<open>try\<close>, the handler prints and the
  function returns \<open>results\<close>.
\<close>

definition fetch_binance :: "string \<Rightarrow> error + http_response \<Rightarrow> string list \<Rightarrow> error + (string, PriceData) dict" where
  "fetch_binance now reply symbols =
     (case reply of
        Inl e \<Rightarrow> Inr []
      | Inr (Response status_code body) \<Rightarrow>
          if status_code = 200 then
            (case body of
               Inl e \<Rightarrow> Inr []
             | Inr data \<Rightarrow> Inr (fst (binance_items now data [])))
          else Inr [])"

text \<open>
  A specification predicate for the two tables of a cycle: \<open>self_prices'\<close> reads as the
  fresh table laid over the table \<open>self_prices\<close> held before the call.
\<close>

definition overlay :: "quote_table \<Rightarrow> quote_table \<Rightarrow> quote_table \<Rightarrow> bool" where
  "overlay self_prices all_prices self_prices' \<longleftrightarrow>
     (\<forall>s e. quote_at self_prices' s e =
        (case quote_at all_prices s e of Some q \<Rightarrow> Some q | None \<Rightarrow> quote_at self_prices s e))"

text \<open>
  Adapters of concrete cycles. In \<open>partial_failure_cycle\<close> two of the five adapters fail (one
  raises, one returns nothing). \<open>stale_cycle_1\<close> and \<open>stale_cycle_2\<close> are two cycles in a
  row: Binance answers in the first and raises in the second.
\<close>

definition partial_failure_cycle :: "(string, adapter) dict" where
  "partial_failure_cycle =
     exchanges (\<lambda>symbols. Inr [(''BTC/USDT'', quote ''BTC/USDT'' ''binance'' 100 99 100)])
               (\<lambda>symbols. Inl RequestException)
               (\<lambda>symbols. Inr [])
               (\<lambda>symbols. Inr [(''BTC/USDT'', quote ''BTC/USDT'' ''bybit'' 101 101 102)])
               (\<lambda>symbols. Inr [(''ETH/USDT'', quote ''ETH/USDT'' ''kucoin'' 10 9 11)])"

definition stale_cycle_1 :: "(string, adapter) dict" where
  "stale_cycle_1 =
     exchanges (\<lambda>symbols. Inr [(''BTC/USDT'', quote ''BTC/USDT'' ''binance'' 101 101 (203/2))])
               (\<lambda>symbols. Inr [(''BTC/USDT'', quote ''BTC/USDT'' ''coinbase'' 100 99 100)])
               (\<lambda>symbols. Inr []) (\<lambda>symbols. Inr []) (\<lambda>symbols. Inr [])"

definition stale_cycle_2 :: "(string, adapter) dict" where
  "stale_cycle_2 =
     exchanges (\<lambda>symbols. Inl RequestException)
               (\<lambda>symbols. Inr [(''BTC/USDT'', quote ''BTC/USDT'' ''coinbase'' 100 (199/2) 100)])
               (\<lambda>symbols. Inr []) (\<lambda>symbols. Inr []) (\<lambda>symbols. Inr [])"

definition stale_table :: quote_table where
  "stale_table =
     [(''BTC/USDT'', [(''binance'', quote ''BTC/USDT'' ''binance'' 101 101 (203/2)),
                      (''coinbase'', quote ''BTC/USDT'' ''coinbase'' 100 (199/2) 100)])]"

section \<open>alert_manager.py\<close>

datatype AlertType =
    PRICE_CHANGE | ARBITRAGE | WHALE_MOVEMENT | PRICE_TARGET | POLYMARKET_DIVERGENCE

text \<open>The \<open>value\<close> of each member of the enum.\<close>

fun type_value :: "AlertType \<Rightarrow> string" where
  "type_value PRICE_CHANGE = ''price_change''"
| "type_value ARBITRAGE = ''arbitrage''"
| "type_value WHALE_MOVEMENT = ''whale''"
| "type_value PRICE_TARGET = ''price_target''"
| "type_value POLYMARKET_DIVERGENCE = ''polymarket''"

text \<open>
  The values of the \<open>data\<close> dictionary of an alert. \<open>PyObject\<close> stands for any value
  \<open>json.dumps\<close> has no encoding for (a set, a \<open>datetime\<close>, an instance of a class).
\<close>

datatype pyvalue = PyFloat real | PyInt int | PyStr string | PyObject

text \<open>
  A \<open>datetime\<close> is an instant counted in microseconds, a \<open>timedelta\<close> a number of
  microseconds. The ISO string kept in \<open>Alert.timestamp\<close> is read back by
  \<open>fromisoformat\<close> to the same instant, so the field holds the instant.
\<close>

record Alert =
  alert_id :: string
  alert_type :: AlertType
  alert_symbol :: string
  message :: string
  data :: "(string, pyvalue) dict"
  severity :: string
  alert_timestamp :: int
  acknowledged :: bool

record TelegramNotifier =
  bot_token :: "string option"
  chat_id :: "string option"

record DiscordNotifier =
  webhook_url :: "string option"

text \<open>
  A callback is called with the alert and may raise; it is taken not to touch the manager.
\<close>

record AlertManager =
  telegram :: TelegramNotifier
  discord :: DiscordNotifier
  cooldown_minutes :: int
  alert_history :: "(string, int) dict"
  sent_alerts :: "Alert list"
  callbacks :: "(Alert \<Rightarrow> error option) list"

text \<open>\<open>a or b\<close> on optional strings: \<open>None\<close> and the empty string are false.\<close>

definition str_or :: "string option \<Rightarrow> string option \<Rightarrow> string option" where
  "str_or a b = (case a of None \<Rightarrow> b | Some s \<Rightarrow> if s \<noteq> [] then Some s else b)"

text \<open>
  \<open>AlertManager.__init__\<close>; the three \<open>getenv\<close> arguments are the values of
  \<open>TELEGRAM_BOT_TOKEN\<close>, \<open>TELEGRAM_CHAT_ID\<close> and \<open>DISCORD_WEBHOOK_URL\<close>.
\<close>

definition AlertManager_init ::
  "string option \<Rightarrow> string option \<Rightarrow> string option \<Rightarrow> int
     \<Rightarrow> string option \<Rightarrow> string option \<Rightarrow> string option \<Rightarrow> AlertManager" where
  "AlertManager_init telegram_token telegram_chat discord_webhook cooldown
       getenv_token getenv_chat getenv_webhook =
     \<lparr> telegram = \<lparr> bot_token = str_or telegram_token getenv_token,
                     chat_id = str_or telegram_chat getenv_chat \<rparr>,
       discord = \<lparr> webhook_url = str_or discord_webhook getenv_webhook \<rparr>,
       cooldown_minutes = cooldown,
       alert_history = [],
       sent_alerts = [],
       callbacks = [] \<rparr>"

definition telegram_is_configured :: "TelegramNotifier \<Rightarrow> bool" where
  "telegram_is_configured t \<longleftrightarrow> bot_token t \<noteq> None \<and> chat_id t \<noteq> None"

definition discord_is_configured :: "DiscordNotifier \<Rightarrow> bool" where
  "discord_is_configured d \<longleftrightarrow> webhook_url d \<noteq> None"

text \<open>
  \<open>send_message\<close> of the two notifiers. The outcome of \<open>requests.post\<close> is an
  argument: the call raises or gives a status code. Telegram counts 200 as delivered,
  Discord 204; an exception is caught and counts as not delivered.
\<close>

definition telegram_send_message :: "TelegramNotifier \<Rightarrow> error + nat \<Rightarrow> bool" where
  "telegram_send_message t post =
     (if \<not> telegram_is_configured t then False
      else (case post of Inl e \<Rightarrow> False | Inr status_code \<Rightarrow> status_code = 200))"

definition discord_send_message :: "DiscordNotifier \<Rightarrow> error + nat \<Rightarrow> bool" where
  "discord_send_message d post =
     (if \<not> discord_is_configured d then False
      else (case post of Inl e \<Rightarrow> False | Inr status_code \<Rightarrow> status_code = 204))"

text \<open>
  What one call of \<open>send_alert\<close> reads from the world: the clock, in the order of the
  reads (\<open>int(time.time())\<close>, the day string \<open>datetime.now().strftime('%Y%m%d')\<close> of
  the alert id, then \<open>datetime.now()\<close> in \<open>_is_duplicate\<close>, for the alert's timestamp
  and for the ledger), and the outcomes of the two HTTP posts.
\<close>

record world =
  epoch_seconds :: int
  today :: string
  now_check :: int
  now_stamp :: int
  now_track :: int
  telegram_post :: "error + nat"
  discord_post :: "error + nat"

text \<open>What a call does that an observer can see, in order.\<close>

datatype event =
    TelegramSend Alert
  | DiscordSend Alert
  | CallbackCall nat Alert
  | PrintCallbackError error
  | PrintSuppressed string
  | PrintAlert Alert
  | PrintData "(string, pyvalue) dict"

text \<open>\<open>str\<close> of an integer, as an f-string renders it.\<close>

definition digit :: "nat \<Rightarrow> char" where
  "digit d = ''0123456789'' ! d"

fun str_nat :: "nat \<Rightarrow> string" where
  "str_nat n =
     (if n < 10 then [digit n]
      else str_nat (n div 10) @ [digit (n mod 10)])"

declare str_nat.simps [simp del]

definition str_int :: "int \<Rightarrow> string" where
  "str_int i = (if i < 0 then CHR ''-'' # str_nat (nat (- i)) else str_nat (nat i))"

definition timedelta_minutes :: "int \<Rightarrow> int" where
  "timedelta_minutes m = m * 60000000"

definition timedelta_days :: "int \<Rightarrow> int" where
  "timedelta_days d = d * 86400000000"

definition generate_alert_id :: "AlertType \<Rightarrow> string \<Rightarrow> string \<Rightarrow> string \<Rightarrow> string" where
  "generate_alert_id atype symbol key day =
     type_value atype @ ''_'' @ symbol @ ''_'' @ key @ ''_'' @ day"

text \<open>\<open>_is_duplicate\<close>; \<open>now\<close> is its reading of \<open>datetime.now()\<close>.\<close>

definition is_duplicate :: "AlertManager \<Rightarrow> string \<Rightarrow> int \<Rightarrow> bool" where
  "is_duplicate self aid now =
     (case map_of (alert_history self) aid of
        None \<Rightarrow> False
      | Some last_sent \<Rightarrow>
          let cooldown = timedelta_minutes (cooldown_minutes self)
          in now - last_sent < cooldown)"

text \<open>Truth value of \<open>dedup_key\<close>: \<open>None\<close> and the empty string are false.\<close>

definition key_given :: "string option \<Rightarrow> bool" where
  "key_given dedup_key = (case dedup_key of None \<Rightarrow> False | Some k \<Rightarrow> k \<noteq> [])"

text \<open>
  The loop over \<open>self.callbacks\<close>: each callback is called, and an exception it raises
  is caught and printed.
\<close>

fun run_callbacks :: "(Alert \<Rightarrow> error option) list \<Rightarrow> nat \<Rightarrow> Alert \<Rightarrow> event list" where
  "run_callbacks [] i alert = []"
| "run_callbacks (callback # rest) i alert =
     (case callback alert of
        None \<Rightarrow> [CallbackCall i alert]
      | Some e \<Rightarrow> [CallbackCall i alert, PrintCallbackError e])
     @ run_callbacks rest (Suc i) alert"

text \<open>
  \<open>json.dumps(alert.data, indent=2)\<close> raises \<open>TypeError\<close> on a value it cannot
  encode; the text it returns otherwise is not modelled.
\<close>

definition json_dumps :: "(string, pyvalue) dict \<Rightarrow> error + unit" where
  "json_dumps d = (if PyObject \<in> snd ` set d then Inl TypeError else Inr ())"

text \<open>\<open>key = dedup_key or f"{severity}_{int(time.time())}"\<close>.\<close>

definition alert_key :: "world \<Rightarrow> string \<Rightarrow> string option \<Rightarrow> string" where
  "alert_key w sev dedup_key =
     (case dedup_key of
        None \<Rightarrow> sev @ ''_'' @ str_int (epoch_seconds w)
      | Some k \<Rightarrow> if k \<noteq> [] then k else sev @ ''_'' @ str_int (epoch_seconds w))"

text \<open>The \<open>Alert\<close> that \<open>send_alert\<close> creates.\<close>

definition new_alert ::
  "world \<Rightarrow> AlertType \<Rightarrow> string \<Rightarrow> string \<Rightarrow> (string, pyvalue) dict \<Rightarrow> string
     \<Rightarrow> string option \<Rightarrow> Alert" where
  "new_alert w atype symbol msg dat sev dedup_key =
     \<lparr> alert_id = generate_alert_id atype symbol (alert_key w sev dedup_key) (today w),
       alert_type = atype, alert_symbol = symbol, message = msg, data = dat, severity = sev,
       alert_timestamp = now_stamp w, acknowledged = False \<rparr>"

text \<open>
  \<open>send_alert\<close> returns the manager as the call leaves it, what the call did, and the
  value returned or the exception raised.
\<close>

definition send_alert ::
  "AlertManager \<Rightarrow> world \<Rightarrow> AlertType \<Rightarrow> string \<Rightarrow> string \<Rightarrow> (string, pyvalue) dict
     \<Rightarrow> string \<Rightarrow> string option \<Rightarrow> AlertManager \<times> event list \<times> (error + bool)" where
  "send_alert self w atype symbol msg dat sev dedup_key =
     (let key = alert_key w sev dedup_key;
          aid = generate_alert_id atype symbol key (today w)
      in
        if key_given dedup_key \<and> is_duplicate self aid (now_check w) then
          (self, [PrintSuppressed aid], Inr False)
        else
          let alert = new_alert w atype symbol msg dat sev dedup_key;
              self' = self \<lparr> alert_history := AList.update aid (now_track w) (alert_history self),
                             sent_alerts := sent_alerts self @ [alert] \<rparr>;
              via_telegram = telegram_is_configured (telegram self);
              via_discord = discord_is_configured (discord self);
              success = ((via_telegram \<and> telegram_send_message (telegram self) (telegram_post w))
                       \<or> (via_discord \<and> discord_send_message (discord self) (discord_post w)));
              done = (if via_telegram then [TelegramSend alert] else [])
                   @ (if via_discord then [DiscordSend alert] else [])
                   @ run_callbacks (callbacks self) 0 alert
          in
            if \<not> success \<and> callbacks self = [] then
              (case json_dumps (data alert) of
                 Inl e \<Rightarrow> (self', done @ [PrintAlert alert], Inl e)
               | Inr u \<Rightarrow> (self', done @ [PrintAlert alert, PrintData (data alert)], Inr True))
            else (self', done, Inr success))"

text \<open>The calls made on the notification sinks, out of what a call did.\<close>

fun is_sink_call :: "event \<Rightarrow> bool" where
  "is_sink_call (TelegramSend a) = True"
| "is_sink_call (DiscordSend a) = True"
| "is_sink_call e = False"

text \<open>The sink calls that deliver an alert: one on each configured notifier.\<close>

definition sink_calls_for :: "AlertManager \<Rightarrow> Alert \<Rightarrow> event list" where
  "sink_calls_for self alert =
     (if telegram_is_configured (telegram self) then [TelegramSend alert] else [])
     @ (if discord_is_configured (discord self) then [DiscordSend alert] else [])"

text \<open>\<open>get_alert_stats\<close>; \<open>now\<close> is its reading of \<open>datetime.now()\<close>.\<close>

definition bump :: "(string, nat) dict \<Rightarrow> string \<Rightarrow> (string, nat) dict" where
  "bump d k = AList.update k ((case map_of d k of None \<Rightarrow> 0 | Some n \<Rightarrow> n) + 1) d"

fun count_alerts ::
  "Alert list \<Rightarrow> (string, nat) dict \<times> (string, nat) dict \<Rightarrow> (string, nat) dict \<times> (string, nat) dict" where
  "count_alerts [] (by_type, by_severity) = (by_type, by_severity)"
| "count_alerts (alert # rest) (by_type, by_severity) =
     count_alerts rest (bump by_type (type_value (alert_type alert)), bump by_severity (severity alert))"

record alert_stats =
  total_alerts :: nat
  by_type :: "(string, nat) dict"
  by_severity :: "(string, nat) dict"
  last_24h :: nat

definition get_alert_stats :: "AlertManager \<Rightarrow> int \<Rightarrow> alert_stats" where
  "get_alert_stats self now =
     (let counts = count_alerts (sent_alerts self) ([], [])
      in \<lparr> total_alerts = length (sent_alerts self),
           by_type = fst counts,
           by_severity = snd counts,
           last_24h = length (filter (\<lambda>a. alert_timestamp a > now - timedelta_days 1)
                                     (sent_alerts self)) \<rparr>)"

text \<open>
  Managers and clock readings used to run \<open>send_alert\<close> on concrete inputs: a manager
  with no sink configured, one with Telegram configured, and a world whose clock reads
  the instant \<open>t\<close> (in microseconds) on a fixed day and whose posts succeed.
\<close>

definition console_manager :: AlertManager where
  "console_manager = AlertManager_init None None None 15 None None None"

definition telegram_manager :: AlertManager where
  "telegram_manager = AlertManager_init (Some ''token'') (Some ''chat'') None 15 None None None"

definition world_at :: "int \<Rightarrow> world" where
  "world_at t =
     \<lparr> epoch_seconds = t div 1000000, today = ''20240101'', now_check = t, now_stamp = t,
       now_track = t, telegram_post = Inr 200, discord_post = Inr 204 \<rparr>"

section \<open>bot.py: price-change detection\<close>

text \<open>
  A detector hands its findings to the alert manager of the bot or of the tenant. The calls
  it makes are recorded with their arguments: \<open>send_price_alert\<close>,
  \<open>send_arbitrage_alert\<close> and \<open>send_whale_alert\<close>. Their results are not used by
  the detectors.
\<close>

datatype alert_call =
    PriceAlertCall string real real real
  | ArbitrageAlertCall string string string real real
  | WhaleAlertCall string real real string string string

text \<open>\<open>sum(d.price for d in exchange_data.values()) / len(exchange_data)\<close>.\<close>

definition avg_price :: "(string, PriceData) dict \<Rightarrow> real" where
  "avg_price exchange_data =
     sum_list (map (\<lambda>(ex, d). price d) exchange_data) / real (length exchange_data)"


section \<open>user_manager.py\<close>

datatype SubscriptionTier = FREE | BASIC | PRO | ENTERPRISE

text \<open>
  The string kept in \<open>User.expires_at\<close>: empty, or not empty and rejected by
  \<open>datetime.fromisoformat\<close> with \<open>ValueError\<close>, or read by it as an instant.
\<close>

datatype iso_string = Empty | Unparsable | Iso int

text \<open>
  The fields of \<open>User\<close> that monitoring reads or writes. \<open>expires_at\<close> is
  \<open>None\<close> or a string.
\<close>

record User =
  user_id :: string
  tier :: SubscriptionTier
  expires_at :: "iso_string option"
  is_active :: bool
  user_symbols :: "string list"
  arbitrage_threshold :: real
  price_change_threshold :: real
  whale_threshold :: real
  poll_interval :: int
  alerts_sent :: nat

text \<open>\<open>User.set_default_settings\<close>.\<close>

fun set_default_settings :: "User \<Rightarrow> SubscriptionTier \<Rightarrow> User" where
  "set_default_settings u FREE =
     u \<lparr> user_symbols := [''BTC/USDT'', ''ETH/USDT''], arbitrage_threshold := 1/2,
         price_change_threshold := 5, whale_threshold := 10000000, poll_interval := 300 \<rparr>"
| "set_default_settings u BASIC =
     u \<lparr> user_symbols := [''BTC/USDT'', ''ETH/USDT'', ''SOL/USDT'', ''ADA/USDT'', ''DOT/USDT''],
         arbitrage_threshold := 1/2, price_change_threshold := 3, whale_threshold := 5000000,
         poll_interval := 60 \<rparr>"
| "set_default_settings u PRO =
     u \<lparr> user_symbols := [''BTC/USDT'', ''ETH/USDT'', ''SOL/USDT'', ''ADA/USDT'', ''DOT/USDT'',
                          ''AVAX/USDT'', ''MATIC/USDT'', ''LINK/USDT''],
         arbitrage_threshold := 3/10, price_change_threshold := 2, whale_threshold := 1000000,
         poll_interval := 30 \<rparr>"
| "set_default_settings u ENTERPRISE =
     u \<lparr> user_symbols := [], arbitrage_threshold := 1/10, price_change_threshold := 1,
         whale_threshold := 500000, poll_interval := 10 \<rparr>"

text \<open>\<open>UserManager.get_active_users\<close> and \<open>increment_alert_count\<close>.\<close>

definition get_active_users :: "User list \<Rightarrow> User list" where
  "get_active_users us = filter is_active us"

fun increment_alert_count :: "User list \<Rightarrow> string \<Rightarrow> User list" where
  "increment_alert_count [] uid = []"
| "increment_alert_count (u # us) uid =
     (if user_id u = uid then u \<lparr> alerts_sent := alerts_sent u + 1 \<rparr> # us
      else u # increment_alert_count us uid)"

text \<open>Truth value of \<open>user.expires_at\<close>: \<open>None\<close> and the empty string are false.\<close>

definition expiry_given :: "iso_string option \<Rightarrow> bool" where
  "expiry_given x = (case x of None \<Rightarrow> False | Some Empty \<Rightarrow> False | Some y \<Rightarrow> True)"

text \<open>
  \<open>check_expired_subscriptions\<close>: the users whose paid tier has run out at \<open>now\<close>.
  For a paid user with an expiry string, \<open>fromisoformat\<close> is called on it and raises
  on a string it cannot parse.
\<close>

fun check_expired_subscriptions :: "User list \<Rightarrow> int \<Rightarrow> error + string list" where
  "check_expired_subscriptions [] now = Inr []"
| "check_expired_subscriptions (u # us) now =
     (if tier u \<noteq> FREE \<and> expiry_given (expires_at u) then
        (case expires_at u of
           Some (Iso expiry) \<Rightarrow>
             (case check_expired_subscriptions us now of
                Inl e \<Rightarrow> Inl e
              | Inr expired \<Rightarrow> Inr (if expiry < now then user_id u # expired else expired))
         | _ \<Rightarrow> Inl ValueError)
      else check_expired_subscriptions us now)"

definition downgrade :: "string list \<Rightarrow> User \<Rightarrow> User" where
  "downgrade expired u =
     (if user_id u \<in> set expired
      then (set_default_settings (u \<lparr> tier := FREE \<rparr>) FREE) \<lparr> is_active := True \<rparr>
      else u)"

definition deactivate_expired :: "User list \<Rightarrow> int \<Rightarrow> error + User list \<times> string list" where
  "deactivate_expired us now =
     (case check_expired_subscriptions us now of
        Inl e \<Rightarrow> Inl e
      | Inr expired \<Rightarrow> Inr (map (downgrade expired) us, expired))"

section \<open>whale_tracker.py: WhaleAlertMock\<close>

record WhaleAlert =
  whale_symbol :: string
  amount :: real
  amount_usd :: real
  from_address :: string
  to_address :: string
  transaction_type :: string
  tx_hash :: string

definition sample_alerts :: "WhaleAlert list" where
  "sample_alerts =
     [\<lparr> whale_symbol = ''BTC'', amount = 3001/2, amount_usd = 105035000,
        from_address = ''1A1zP1eP5QGefi2DMPTfTL5SLmv7DivfNa'',
        to_address = ''bc1qxy2kgdygjrsqtzq2n0yrf2493p83kkfjhx0wlh'',
        transaction_type = ''exchange_in'', tx_hash = ''abc123def456'' \<rparr>,
      \<lparr> whale_symbol = ''BTC'', amount = 3001/4, amount_usd = 52517500,
        from_address = ''bc1qm34lsc65zpw79lxes69zkqmk6ee3ewf0j77s3h'',
        to_address = ''1BvBMSEYstWetqTFn5Au4m4GFg7xJaNVN2'',
        transaction_type = ''exchange_out'', tx_hash = ''def789ghi012'' \<rparr>,
      \<lparr> whale_symbol = ''BTC'', amount = 3000, amount_usd = 210000000,
        from_address = ''1BoatSLRHtKNngkdXEeobR76b53LETtpyT'',
        to_address = ''bc1q2gjc0l80zxd6z0w8s90j9y9h6r8z7w'',
        transaction_type = ''transfer'', tx_hash = ''ghi345jkl678'' \<rparr>]"

definition get_bitcoin_whale_transactions :: "real \<Rightarrow> WhaleAlert list" where
  "get_bitcoin_whale_transactions min_usd_value =
     filter (\<lambda>a. amount_usd a \<ge> min_usd_value) sample_alerts"


section \<open>saas_main.py: the multi-tenant service\<close>

text \<open>What the monitoring loop prints.\<close>

datatype line =
    TickHeader nat nat
  | FetchingPrices nat
  | UserLine string
  | UserDataSaved
  | NoActiveUsers
  | Downgraded nat
  | LoopError error

text \<open>
  The state the monitoring thread works on: the users of the \<open>UserManager\<close>, the table
  \<open>self.price_monitor.prices\<close>, the attribute \<open>previous_prices\<close> of the
  \<open>PriceMonitor\<close> object (\<open>None\<close> while the object has no such attribute), the ids that
  have an alert manager, the alert calls made on those managers, and the console.
\<close>

record SaaSService =
  users :: "User list"
  pm_prices :: quote_table
  pm_previous_prices :: "(string, real) dict option"
  user_alert_managers :: "string list"
  alert_calls :: "(string \<times> alert_call) list"
  console :: "line list"

text \<open>
  \<open>SaaSService.__init__\<close> with the bot token set: \<open>PriceMonitor()\<close> creates
  \<open>prices\<close>, \<open>callbacks\<close>, \<open>running\<close>, \<open>thread\<close> and \<open>exchanges\<close>, and no
  \<open>previous_prices\<close>; nothing in the repository assigns that attribute.
\<close>

definition SaaSService_init :: "User list \<Rightarrow> SaaSService" where
  "SaaSService_init loaded =
     \<lparr> users = loaded, pm_prices = [], pm_previous_prices = None,
       user_alert_managers = [], alert_calls = [], console = [] \<rparr>"

definition get_or_create_alert_manager :: "User \<Rightarrow> SaaSService \<Rightarrow> SaaSService" where
  "get_or_create_alert_manager user s =
     (if user_id user \<in> set (user_alert_managers s) then s
      else s \<lparr> user_alert_managers := user_alert_managers s @ [user_id user] \<rparr>)"

text \<open>An alert call on the user's manager, followed by \<open>increment_alert_count\<close>.\<close>

definition alert_user :: "User \<Rightarrow> alert_call \<Rightarrow> SaaSService \<Rightarrow> SaaSService" where
  "alert_user user call s =
     s \<lparr> alert_calls := alert_calls s @ [(user_id user, call)],
         users := increment_alert_count (users s) (user_id user) \<rparr>"

text \<open>
  The loop of \<open>_check_price_changes_for_user\<close> over \<open>prices.items()\<close>. Reading
  \<open>self.price_monitor.previous_prices\<close> raises \<open>AttributeError\<close> when the attribute
  does not exist. \<open>if previous_price\<close> is false for \<open>None\<close> and for zero.
\<close>

fun price_changes_loop :: "User \<Rightarrow> quote_table \<Rightarrow> SaaSService \<Rightarrow> SaaSService \<times> error option" where
  "price_changes_loop user [] s = (s, None)"
| "price_changes_loop user ((symbol, exchange_data) # rest) s =
     (if symbol \<notin> set (user_symbols user) then price_changes_loop user rest s
      else if exchange_data = [] then price_changes_loop user rest s
      else
        let avg = avg_price exchange_data;
            previous_key = user_id user @ ''_'' @ symbol
        in
          (case pm_previous_prices s of
             None \<Rightarrow> (s, Some AttributeError)
           | Some previous_prices \<Rightarrow>
               let previous_price = map_of previous_prices previous_key;
                   s1 = (case previous_price of
                           None \<Rightarrow> s
                         | Some previous \<Rightarrow>
                             if previous \<noteq> 0 then
                               let change_pct = ((avg - previous) / previous) * 100
                               in if \<bar>change_pct\<bar> \<ge> price_change_threshold user
                                  then alert_user user
                                         (PriceAlertCall symbol avg change_pct
                                            (price_change_threshold user)) s
                                  else s
                             else s)
               in price_changes_loop user rest
                    (s1 \<lparr> pm_previous_prices :=
                            Some (AList.update previous_key avg previous_prices) \<rparr>)))"

definition check_price_changes_for_user ::
  "User \<Rightarrow> quote_table \<Rightarrow> SaaSService \<Rightarrow> SaaSService \<times> error option" where
  "check_price_changes_for_user user prices s =
     price_changes_loop user prices (get_or_create_alert_manager user s)"

text \<open>\<open>_check_arbitrage_for_user\<close>; \<open>now\<close> is the clock reading of \<open>find_arbitrage\<close>.\<close>

definition check_arbitrage_for_user :: "string \<Rightarrow> User \<Rightarrow> SaaSService \<Rightarrow> SaaSService" where
  "check_arbitrage_for_user now user s =
     (if tier user = FREE then s
      else
        let s1 = get_or_create_alert_manager user s;
            opportunities =
              find_arbitrage (pm_prices s1) (user_symbols user) (arbitrage_threshold user) now
        in foldl (\<lambda>s' opp.
                    alert_user user
                      (ArbitrageAlertCall (opp_symbol opp) (buy_exchange opp) (sell_exchange opp)
                         (profit_pct opp) (profit_usd opp)) s')
                 s1 opportunities)"

text \<open>\<open>_check_whales_for_user\<close>.\<close>

definition check_whales_for_user :: "User \<Rightarrow> nat \<Rightarrow> SaaSService \<Rightarrow> SaaSService" where
  "check_whales_for_user user iteration s =
     (if tier user = FREE \<or> tier user = BASIC then s
      else if iteration mod 5 \<noteq> 0 then s
      else
        let alerts = get_bitcoin_whale_transactions (whale_threshold user) in
        if alerts \<noteq> [] then
          foldl (\<lambda>s' a.
                   alert_user user
                     (WhaleAlertCall (whale_symbol a) (amount a) (amount_usd a)
                        (transaction_type a) (from_address a) (to_address a)) s')
                (get_or_create_alert_manager user s) alerts
        else s)"

text \<open>
  The body of \<open>for user in users\<close> for one user, and the loop. An exception leaves the
  loop at once, with the state as it is then.
\<close>

definition process_user ::
  "string \<Rightarrow> nat \<Rightarrow> quote_table \<Rightarrow> User \<Rightarrow> SaaSService \<Rightarrow> SaaSService \<times> error option" where
  "process_user now iteration prices user s =
     (case check_price_changes_for_user user prices
             (s \<lparr> console := console s @ [UserLine (take 8 (user_id user))] \<rparr>) of
        (s1, Some e) \<Rightarrow> (s1, Some e)
      | (s1, None) \<Rightarrow>
          (check_whales_for_user user iteration (check_arbitrage_for_user now user s1), None))"

fun process_users ::
  "string \<Rightarrow> nat \<Rightarrow> quote_table \<Rightarrow> User list \<Rightarrow> SaaSService \<Rightarrow> SaaSService \<times> error option" where
  "process_users now iteration prices [] s = (s, None)"
| "process_users now iteration prices (user # rest) s =
     (case process_user now iteration prices user s of
        (s1, Some e) \<Rightarrow> (s1, Some e)
      | (s1, None) \<Rightarrow> process_users now iteration prices rest s1)"

text \<open>
  What one pass of the loop reads from the world: the flag \<open>self.running\<close> at the head of
  the loop, the adapters' behaviour in this cycle, and the clock.
\<close>

record tick_env =
  running :: bool
  adapters :: "(string, adapter) dict"
  clock :: string
  expiry_now :: int

text \<open>
  The statements inside the \<open>try\<close> of \<open>_monitoring_loop\<close>, with \<open>iteration\<close> already
  incremented. The order in which \<open>list(all_symbols)\<close> lists a set is not fixed by
  Python; the list only goes to the adapters.
\<close>

definition tick_body :: "tick_env \<Rightarrow> nat \<Rightarrow> SaaSService \<Rightarrow> SaaSService \<times> error option" where
  "tick_body env iteration s =
     (let active = get_active_users (users s);
          r = (if active \<noteq> [] then
                 let all_symbols = remdups (concat (map user_symbols active));
                     s1 = s \<lparr> console := console s
                             @ [TickHeader iteration (length active),
                                FetchingPrices (length all_symbols)] \<rparr>
                 in (case fetch_all_prices (adapters env) (pm_prices s1) all_symbols of
                       Inl e \<Rightarrow> (s1, Some e)
                     | Inr (prices, self_prices) \<Rightarrow>
                         (case process_users (clock env) iteration prices active
                                 (s1 \<lparr> pm_prices := self_prices \<rparr>) of
                            (s2, Some e) \<Rightarrow> (s2, Some e)
                          | (s2, None) \<Rightarrow>
                              (if iteration mod 10 = 0
                               then s2 \<lparr> console := console s2 @ [UserDataSaved] \<rparr>
                               else s2, None)))
               else (s \<lparr> console := console s @ [NoActiveUsers] \<rparr>, None))
      in (case r of
            (s3, Some e) \<Rightarrow> (s3, Some e)
          | (s3, None) \<Rightarrow>
              if iteration mod 120 = 0 then
                (case deactivate_expired (users s3) (expiry_now env) of
                   Inl e \<Rightarrow> (s3, Some e)
                 | Inr (users', expired) \<Rightarrow>
                     (if expired \<noteq> []
                      then s3 \<lparr> users := users',
                                console := console s3 @ [Downgraded (length expired)] \<rparr>
                      else s3 \<lparr> users := users' \<rparr>, None))
              else (s3, None)))"

text \<open>One pass of the loop: the \<open>try\<close> and its handler, which prints the error.\<close>

definition tick :: "tick_env \<Rightarrow> nat \<Rightarrow> SaaSService \<Rightarrow> SaaSService" where
  "tick env iteration s =
     (case tick_body env iteration s of
        (s', None) \<Rightarrow> s'
      | (s', Some e) \<Rightarrow> s' \<lparr> console := console s' @ [LoopError e] \<rparr>)"

text \<open>
  \<open>while self.running\<close>: pass \<open>i\<close> reads the world \<open>env i\<close>. The loop may run for
  ever, so it is given fuel; \<open>None\<close> is a loop that has not returned within it.
\<close>

fun monitoring_loop ::
  "nat \<Rightarrow> (nat \<Rightarrow> tick_env) \<Rightarrow> nat \<Rightarrow> SaaSService \<Rightarrow> SaaSService option" where
  "monitoring_loop 0 env i s = None"
| "monitoring_loop (Suc fuel) env i s =
     (if \<not> running (env i) then Some s
      else monitoring_loop fuel env (Suc i) (tick (env i) (Suc i) s))"

text \<open>Two active tenants on the free tier, and a cycle in which the adapters answer.\<close>

definition tenant :: "string \<Rightarrow> User" where
  "tenant uid =
     set_default_settings
       \<lparr> user_id = uid, tier = FREE, expires_at = None, is_active = True, user_symbols = [],
         arbitrage_threshold = 0, price_change_threshold = 0, whale_threshold = 0,
         poll_interval = 0, alerts_sent = 0 \<rparr> FREE"

definition two_tenants :: SaaSService where
  "two_tenants = SaaSService_init [tenant ''alice'', tenant ''bob'']"

definition answering :: "bool \<Rightarrow> tick_env" where
  "answering flag =
     \<lparr> running = flag, adapters = partial_failure_cycle, clock = ''t1'', expiry_now = 0 \<rparr>"

definition answered_table :: quote_table where
  "answered_table =
     [(''BTC/USDT'', [(''binance'', quote ''BTC/USDT'' ''binance'' 100 99 100),
                      (''bybit'', quote ''BTC/USDT'' ''bybit'' 101 101 102)]),
      (''ETH/USDT'', [(''kucoin'', quote ''ETH/USDT'' ''kucoin'' 10 9 11)])]"

section \<open>Proofs: find_arbitrage\<close>


lemma find_loop_map_filter:
  "find_loop P m now syms acc = acc @ List.map_filter (check_symbol P m now) syms"
  by (induction syms arbitrary: acc) (auto split: option.splits)

lemma set_sorted_reverse: "set (sorted_reverse k xs) = set xs"
  by (simp add: sorted_reverse_def)

lemma set_bids: "set (bids qs) = {(ex, b). \<exists>pd. (ex, pd) \<in> set qs \<and> bid pd = Some b \<and> b \<noteq> 0}"
  by (induction qs rule: bids.induct) (auto split: option.splits)

lemma set_asks: "set (asks qs) = {(ex, a). \<exists>pd. (ex, pd) \<in> set qs \<and> ask pd = Some a \<and> a \<noteq> 0}"
  by (induction qs rule: asks.induct) (auto split: option.splits)

lemma max_key_mem: "max_key k b xs \<in> set (b # xs)"
  by (induction xs arbitrary: b) (auto split: if_splits)

lemma max_key_ge: "x \<in> set (b # xs) \<Longrightarrow> k x \<le> k (max_key k b xs)"
proof (induction xs arbitrary: b x)
  case Nil then show ?case by simp
next
  case (Cons y ys)
  let ?c = "if k y > k b then y else b"
  have step: "k ?c \<le> k (max_key k ?c ys)"
    using Cons.IH[of ?c ?c] by simp
  have "x = b \<or> x = y \<or> x \<in> set ys" using Cons.prems by auto
  then show ?case
  proof (elim disjE)
    assume "x = b"
    have "k b \<le> k ?c" by simp
    with step show ?thesis using \<open>x = b\<close> by simp
  next
    assume "x = y"
    have "k y \<le> k ?c" by simp
    with step show ?thesis using \<open>x = y\<close> by simp
  next
    assume "x \<in> set ys"
    then show ?thesis using Cons.IH[of x ?c] by simp
  qed
qed

lemma min_key_mem: "min_key k b xs \<in> set (b # xs)"
  by (induction xs arbitrary: b) (auto split: if_splits)

lemma min_key_le: "x \<in> set (b # xs) \<Longrightarrow> k (min_key k b xs) \<le> k x"
proof (induction xs arbitrary: b x)
  case Nil then show ?case by simp
next
  case (Cons y ys)
  let ?c = "if k y < k b then y else b"
  have step: "k (min_key k ?c ys) \<le> k ?c"
    using Cons.IH[of ?c ?c] by simp
  have "x = b \<or> x = y \<or> x \<in> set ys" using Cons.prems by auto
  then show ?case
  proof (elim disjE)
    assume "x = b"
    have "k ?c \<le> k b" by simp
    with step show ?thesis using \<open>x = b\<close> by simp
  next
    assume "x = y"
    have "k ?c \<le> k y" by simp
    with step show ?thesis using \<open>x = y\<close> by simp
  next
    assume "x \<in> set ys"
    then show ?thesis using Cons.IH[of x ?c] by simp
  qed
qed

lemma max_key_Max: "k (max_key k b xs) = Max (k ` set (b # xs))"
proof (rule sym, rule Max_eqI)
  show "finite (k ` set (b # xs))" by simp
  show "\<And>y. y \<in> k ` set (b # xs) \<Longrightarrow> y \<le> k (max_key k b xs)"
    using max_key_ge[of _ b xs k] by auto
  show "k (max_key k b xs) \<in> k ` set (b # xs)"
    using max_key_mem[of k b xs] by blast
qed

lemma min_key_Min: "k (min_key k b xs) = Min (k ` set (b # xs))"
proof (rule sym, rule Min_eqI)
  show "finite (k ` set (b # xs))" by simp
  show "\<And>y. y \<in> k ` set (b # xs) \<Longrightarrow> k (min_key k b xs) \<le> y"
    using min_key_le[of _ b xs k] by auto
  show "k (min_key k b xs) \<in> k ` set (b # xs)"
    using min_key_mem[of k b xs] by blast
qed

lemma snd_set_bids: "snd ` set (bids qs) = {b. \<exists>ex pd. (ex, pd) \<in> set qs \<and> bid pd = Some b \<and> b \<noteq> 0}"
  by (auto simp: set_bids image_iff) blast+

lemma snd_set_asks: "snd ` set (asks qs) = {a. \<exists>ex pd. (ex, pd) \<in> set qs \<and> ask pd = Some a \<and> a \<noteq> 0}"
  by (auto simp: set_asks image_iff) blast+

lemma check_symbol_Some:
  assumes "check_symbol P m now s = Some opp"
  shows "\<exists>qs b bs a as. map_of P s = Some qs \<and> 2 \<le> length qs \<and> bids qs = b # bs \<and> asks qs = a # as
     \<and> opp = \<lparr> opp_symbol = s, buy_exchange = fst (min_key snd a as), sell_exchange = fst (max_key snd b bs),
               buy_price = snd (min_key snd a as), sell_price = snd (max_key snd b bs),
               profit_pct = ((snd (max_key snd b bs) - snd (min_key snd a as)) / snd (min_key snd a as)) * 100,
               profit_usd = snd (max_key snd b bs) - snd (min_key snd a as), opp_timestamp = now \<rparr>
     \<and> snd (max_key snd b bs) > snd (min_key snd a as)
     \<and> ((snd (max_key snd b bs) - snd (min_key snd a as)) / snd (min_key snd a as)) * 100 \<ge> m"
  using assms unfolding check_symbol_def
  by (auto simp: Let_def split: option.splits if_splits list.splits)

text \<open>
  Claim C1. Every opportunity returned by \<open>find_arbitrage\<close> has
  \<open>sell_price > buy_price\<close>, its \<open>profit_pct\<close> is
  \<open>(sell_price - buy_price) / buy_price * 100\<close> and is at least \<open>min_profit_pct\<close>
  (so none below the threshold is returned), and its buy price is the least ask and its sell
  price the greatest bid among the quotes of its symbol that carry that side, a side being
  carried when the field is neither \<open>None\<close> nor zero, as the source's filter reads it.
\<close>

theorem find_arbitrage_sound:
  assumes "opp \<in> set (find_arbitrage prices symbols min_profit_pct now)"
  shows "sell_price opp > buy_price opp
       \<and> profit_pct opp = (sell_price opp - buy_price opp) / buy_price opp * 100
       \<and> profit_pct opp \<ge> min_profit_pct
       \<and> \<not> profit_pct opp < min_profit_pct
       \<and> (\<exists>qs. map_of prices (opp_symbol opp) = Some qs
             \<and> buy_price opp = Min {a. \<exists>ex pd. (ex, pd) \<in> set qs \<and> ask pd = Some a \<and> a \<noteq> 0}
             \<and> sell_price opp = Max {b. \<exists>ex pd. (ex, pd) \<in> set qs \<and> bid pd = Some b \<and> b \<noteq> 0})"
proof -
  from assms obtain s where s: "check_symbol prices min_profit_pct now s = Some opp"
    by (auto simp: find_arbitrage_def set_sorted_reverse find_loop_map_filter List.map_filter_def)
  from check_symbol_Some[OF s] obtain qs b bs a as where
    qs: "map_of prices s = Some qs" and bq: "bids qs = b # bs" and aq: "asks qs = a # as"
    and opp: "opp = \<lparr> opp_symbol = s, buy_exchange = fst (min_key snd a as), sell_exchange = fst (max_key snd b bs),
               buy_price = snd (min_key snd a as), sell_price = snd (max_key snd b bs),
               profit_pct = ((snd (max_key snd b bs) - snd (min_key snd a as)) / snd (min_key snd a as)) * 100,
               profit_usd = snd (max_key snd b bs) - snd (min_key snd a as), opp_timestamp = now \<rparr>"
    and gt: "snd (max_key snd b bs) > snd (min_key snd a as)"
    and ge: "((snd (max_key snd b bs) - snd (min_key snd a as)) / snd (min_key snd a as)) * 100 \<ge> min_profit_pct"
    by blast
  have mx: "snd (max_key snd b bs) = Max {b. \<exists>ex pd. (ex, pd) \<in> set qs \<and> bid pd = Some b \<and> b \<noteq> 0}"
    using max_key_Max[of snd b bs] snd_set_bids[of qs] bq by simp
  have mn: "snd (min_key snd a as) = Min {a. \<exists>ex pd. (ex, pd) \<in> set qs \<and> ask pd = Some a \<and> a \<noteq> 0}"
    using min_key_Min[of snd a as] snd_set_asks[of qs] aq by simp
  show ?thesis using qs opp gt ge mx mn by simp
qed


lemma sorted_reverse_desc: "sorted_wrt (\<lambda>x y. k x \<ge> k y) (sorted_reverse k xs)"
proof -
  have "sorted (map k (sort_key k (rev xs)))" by simp
  then have "sorted_wrt (\<lambda>x y. k x \<le> k y) (sort_key k (rev xs))"
    by (simp add: sorted_map)
  then show ?thesis
    unfolding sorted_reverse_def by (simp add: sorted_wrt_rev)
qed

lemma sorted_reverse_stable:
  "filter (\<lambda>y. k y = v) (sorted_reverse k xs) = filter (\<lambda>y. k y = v) xs"
proof -
  have "filter (\<lambda>y. k y = v) (sorted_reverse k xs)
        = rev (filter (\<lambda>y. k y = v) (sort_key k (rev xs)))"
    by (simp add: sorted_reverse_def rev_filter)
  also have "\<dots> = rev (filter (\<lambda>y. k y = v) (rev xs))"
    by (simp only: sort_key_stable)
  also have "\<dots> = filter (\<lambda>y. k y = v) xs"
    by (simp add: rev_filter)
  finally show ?thesis .
qed

lemma check_symbol_symbol: "check_symbol P m now s = Some opp \<Longrightarrow> opp_symbol opp = s"
  by (drule check_symbol_Some) auto

lemma map_symbol_filter_map_filter:
  "map opp_symbol (filter Q (List.map_filter (check_symbol P m now) syms))
   = filter (\<lambda>s. case check_symbol P m now s of None \<Rightarrow> False | Some opp \<Rightarrow> Q opp) syms"
  by (induction syms) (auto simp: List.map_filter_simps check_symbol_symbol split: option.splits)

text \<open>
  Claim C6. The list returned by \<open>find_arbitrage\<close> is in descending order of
  \<open>profit_pct\<close>, and the sort is stable: for every profit value \<open>v\<close> the
  opportunities with that profit appear exactly as the loop met them, which is the order of
  their symbols in the input list.
\<close>

theorem find_arbitrage_sorted_stable:
  "sorted_wrt (\<lambda>x y. profit_pct x \<ge> profit_pct y) (find_arbitrage prices symbols min_profit_pct now)
   \<and> filter (\<lambda>opp. profit_pct opp = v) (find_arbitrage prices symbols min_profit_pct now)
       = filter (\<lambda>opp. profit_pct opp = v) (List.map_filter (check_symbol prices min_profit_pct now) symbols)
   \<and> map opp_symbol (filter (\<lambda>opp. profit_pct opp = v) (find_arbitrage prices symbols min_profit_pct now))
       = filter (\<lambda>s. case check_symbol prices min_profit_pct now s of
                        None \<Rightarrow> False | Some opp \<Rightarrow> profit_pct opp = v) symbols"
proof -
  have a: "sorted_wrt (\<lambda>x y. profit_pct x \<ge> profit_pct y) (find_arbitrage prices symbols min_profit_pct now)"
    unfolding find_arbitrage_def by (rule sorted_reverse_desc)
  have b: "filter (\<lambda>opp. profit_pct opp = v) (find_arbitrage prices symbols min_profit_pct now)
       = filter (\<lambda>opp. profit_pct opp = v) (List.map_filter (check_symbol prices min_profit_pct now) symbols)"
    unfolding find_arbitrage_def by (simp add: sorted_reverse_stable find_loop_map_filter)
  have c: "map opp_symbol (filter (\<lambda>opp. profit_pct opp = v) (find_arbitrage prices symbols min_profit_pct now))
       = filter (\<lambda>s. case check_symbol prices min_profit_pct now s of
                        None \<Rightarrow> False | Some opp \<Rightarrow> profit_pct opp = v) symbols"
    by (simp only: b map_symbol_filter_map_filter)
  from a b c show ?thesis by blast
qed

text \<open>The spec's scenario: venue A asks 100, venue B bids 101, threshold 0.2.\<close>

theorem find_arbitrage_sound_witness:
  "\<lparr> opp_symbol = ''BTC/USDT'', buy_exchange = ''A'', sell_exchange = ''B'', buy_price = 100,
      sell_price = 101, profit_pct = 1, profit_usd = 1, opp_timestamp = ''t1'' \<rparr>
     \<in> set (find_arbitrage two_venue_table [''BTC/USDT''] (1/5) ''t1'')
   \<and> (\<exists>qs. map_of two_venue_table ''BTC/USDT'' = Some qs
         \<and> (100::real) = Min {a. \<exists>ex pd. (ex, pd) \<in> set qs \<and> ask pd = Some a \<and> a \<noteq> 0}
         \<and> (101::real) = Max {b. \<exists>ex pd. (ex, pd) \<in> set qs \<and> bid pd = Some b \<and> b \<noteq> 0})"
proof -
  have mem: "\<lparr> opp_symbol = ''BTC/USDT'', buy_exchange = ''A'', sell_exchange = ''B'', buy_price = 100,
      sell_price = 101, profit_pct = 1, profit_usd = 1, opp_timestamp = ''t1'' \<rparr>
     \<in> set (find_arbitrage two_venue_table [''BTC/USDT''] (1/5) ''t1'')"
    by (simp add: find_arbitrage_def sorted_reverse_def check_symbol_def two_venue_table_def quote_def)
  from find_arbitrage_sound[OF mem] mem show ?thesis by simp
qed

lemma max_key_fst:
  assumes "(e, v) \<in> set (b # bs)" and "\<forall>(e', v') \<in> set (b # bs). v' \<le> v"
    and "\<forall>(e', v') \<in> set (b # bs). e' \<noteq> e \<longrightarrow> v' < v"
  shows "fst (max_key snd b bs) = e"
proof -
  have m: "max_key snd b bs \<in> set (b # bs)" by (rule max_key_mem)
  have "snd (e, v) \<le> snd (max_key snd b bs)" using max_key_ge[OF assms(1), of snd] .
  then have "v \<le> snd (max_key snd b bs)" by simp
  with assms(3) m show ?thesis by (cases "max_key snd b bs") fastforce
qed

lemma min_key_fst:
  assumes "(e, v) \<in> set (b # bs)"
    and "\<forall>(e', v') \<in> set (b # bs). e' \<noteq> e \<longrightarrow> v < v'"
  shows "fst (min_key snd b bs) = e"
proof -
  have m: "min_key snd b bs \<in> set (b # bs)" by (rule min_key_mem)
  have "snd (min_key snd b bs) \<le> snd (e, v)" using min_key_le[OF assms(1), of snd] .
  then have "snd (min_key snd b bs) \<le> v" by simp
  with assms(2) m show ?thesis by (cases "min_key snd b bs") fastforce
qed

text \<open>
  Claim C9. For a symbol the detector examines (one of the list, with the two or more
  exchange quotes the comparison is made on): if a single exchange holds both the highest
  bid and the lowest ask, that bid exceeds that ask and the profit reaches the threshold,
  \<open>find_arbitrage\<close> still emits the opportunity; where that exchange is strictly best
  on both sides, the emitted opportunity has it as both \<open>buy_exchange\<close> and
  \<open>sell_exchange\<close>. No check excludes equal exchanges.
\<close>

theorem same_exchange_spread_emitted:
  assumes insym: "symbol \<in> set symbols"
    and tab: "map_of prices symbol = Some qs" and two: "2 \<le> length qs"
    and q: "(e, pd) \<in> set qs" and bq: "bid pd = Some b" and aq: "ask pd = Some a"
    and nz: "a \<noteq> 0" "b \<noteq> 0"
    and hi: "\<forall>(e', pd') \<in> set qs. \<forall>b'. bid pd' = Some b' \<and> b' \<noteq> 0 \<longrightarrow> b' \<le> b"
    and lo: "\<forall>(e', pd') \<in> set qs. \<forall>a'. ask pd' = Some a' \<and> a' \<noteq> 0 \<longrightarrow> a \<le> a'"
    and gt: "b > a" and thr: "(b - a) / a * 100 \<ge> min_profit_pct"
  shows "\<exists>opp \<in> set (find_arbitrage prices symbols min_profit_pct now).
           opp_symbol opp = symbol \<and> buy_price opp = a \<and> sell_price opp = b
         \<and> profit_pct opp = (b - a) / a * 100
         \<and> ((\<forall>(e', pd') \<in> set qs. e' \<noteq> e \<longrightarrow>
                 (\<forall>b'. bid pd' = Some b' \<and> b' \<noteq> 0 \<longrightarrow> b' < b)
               \<and> (\<forall>a'. ask pd' = Some a' \<and> a' \<noteq> 0 \<longrightarrow> a < a'))
              \<longrightarrow> buy_exchange opp = e \<and> sell_exchange opp = e)"
proof -
  have eb: "(e, b) \<in> set (bids qs)" using q bq nz by (auto simp: set_bids)
  have ea: "(e, a) \<in> set (asks qs)" using q aq nz by (auto simp: set_asks)
  from eb obtain b0 bs where B: "bids qs = b0 # bs" by (cases "bids qs") auto
  from ea obtain a0 as where A: "asks qs = a0 # as" by (cases "asks qs") auto
  let ?bb = "max_key snd b0 bs" and ?ba = "min_key snd a0 as"
  have hb: "\<forall>(e', v') \<in> set (b0 # bs). v' \<le> b"
    using hi B[symmetric] by (auto simp: set_bids)
  have la: "\<forall>(e', v') \<in> set (a0 # as). a \<le> v'"
    using lo A[symmetric] by (auto simp: set_asks)
  have sb: "snd ?bb = b"
  proof (rule antisym)
    show "snd ?bb \<le> b" using hb max_key_mem[of snd b0 bs] by (cases ?bb) auto
    show "b \<le> snd ?bb" using max_key_ge[of "(e, b)" b0 bs snd] eb B by simp
  qed
  have sa: "snd ?ba = a"
  proof (rule antisym)
    show "a \<le> snd ?ba" using la min_key_mem[of snd a0 as] by (cases ?ba) auto
    show "snd ?ba \<le> a" using min_key_le[of "(e, a)" a0 as snd] ea A by simp
  qed
  let ?opp = "\<lparr> opp_symbol = symbol, buy_exchange = fst ?ba, sell_exchange = fst ?bb,
                 buy_price = a, sell_price = b, profit_pct = (b - a) / a * 100,
                 profit_usd = b - a, opp_timestamp = now \<rparr>"
  have cs: "check_symbol prices min_profit_pct now symbol = Some ?opp"
    using tab two B A sb sa gt thr by (simp add: check_symbol_def Let_def)
  have mem: "?opp \<in> set (find_arbitrage prices symbols min_profit_pct now)"
    using insym cs
    by (auto simp: find_arbitrage_def set_sorted_reverse find_loop_map_filter List.map_filter_def
             intro!: image_eqI[where x = symbol])
  have ex: "buy_exchange ?opp = e \<and> sell_exchange ?opp = e"
    if strict: "\<forall>(e', pd') \<in> set qs. e' \<noteq> e \<longrightarrow>
                 (\<forall>b'. bid pd' = Some b' \<and> b' \<noteq> 0 \<longrightarrow> b' < b)
               \<and> (\<forall>a'. ask pd' = Some a' \<and> a' \<noteq> 0 \<longrightarrow> a < a')"
  proof -
    have s1: "\<forall>(e', v') \<in> set (b0 # bs). e' \<noteq> e \<longrightarrow> v' < b"
      using strict B[symmetric] by (auto simp: set_bids)
    have s2: "\<forall>(e', v') \<in> set (a0 # as). e' \<noteq> e \<longrightarrow> a < v'"
      using strict A[symmetric] by (auto simp: set_asks)
    have "fst ?bb = e" using max_key_fst[OF _ hb s1] eb B by simp
    moreover have "fst ?ba = e" using min_key_fst[OF _ s2] ea A by simp
    ultimately show ?thesis by simp
  qed
  show ?thesis
    by (rule bexI[OF _ mem]) (use ex in simp)
qed


theorem same_exchange_spread_emitted_witness:
  "\<exists>opp \<in> set (find_arbitrage self_spread_table [''BTC/USDT''] (1/2) ''t1'').
      opp_symbol opp = ''BTC/USDT'' \<and> buy_price opp = 100 \<and> sell_price opp = 101
    \<and> profit_pct opp = 1 \<and> buy_exchange opp = ''A'' \<and> sell_exchange opp = ''A''"
  using same_exchange_spread_emitted[of "''BTC/USDT''" "[''BTC/USDT'']" self_spread_table
      "[(''A'', quote ''BTC/USDT'' ''A'' 100 101 100), (''B'', quote ''BTC/USDT'' ''B'' 100 99 102)]"
      "''A''" "quote ''BTC/USDT'' ''A'' 100 101 100" 101 100 "1/2" "''t1''"]
  by (simp add: self_spread_table_def quote_def)

section \<open>Proofs: fetch_all_prices\<close>

lemma quote_at_set_quote:
  "quote_at (set_quote t s e q) s' e' = (if s' = s \<and> e' = e then Some q else quote_at t s' e')"
  by (auto simp: quote_at_def set_quote_def update_conv' split: option.splits)

lemma map_of_set_quote_None:
  "map_of (set_quote t s e q) s' = None \<longleftrightarrow> s' \<noteq> s \<and> map_of t s' = None"
  by (auto simp: set_quote_def update_conv')

lemma fetch_loop_Inr: "\<exists>r. fetch_loop exs symbols tables = Inr r"
proof (induction exs arbitrary: tables)
  case Nil show ?case by simp
next
  case (Cons x exs)
  obtain name f where x: "x = (name, f)" by (cases x)
  show ?case
    using Cons.IH by (cases "f symbols") (simp_all add: x try_except_def)
qed

lemma fetch_binance_Inr: "\<exists>d. fetch_binance now reply symbols = Inr d"
  by (auto simp: fetch_binance_def split: sum.splits http_response.splits)

lemma overlay_merge:
  "overlay P0 A P \<Longrightarrow> merge_prices ex d (A, P) = (A', P') \<Longrightarrow> overlay P0 A' P'"
proof (induction d arbitrary: A P)
  case Nil then show ?case by simp
next
  case (Cons x d)
  obtain s q where x: "x = (s, q)" by (cases x)
  have "overlay P0 (set_quote A s ex q) (set_quote P s ex q)"
    using Cons.prems(1) by (simp add: overlay_def quote_at_set_quote)
  then show ?case using Cons.IH Cons.prems(2) by (simp add: x)
qed

lemma overlay_loop:
  "overlay P0 A P \<Longrightarrow> fetch_loop exs symbols (A, P) = Inr (A', P') \<Longrightarrow> overlay P0 A' P'"
proof (induction exs arbitrary: A P)
  case Nil then show ?case by simp
next
  case (Cons x exs)
  obtain name f where x: "x = (name, f)" by (cases x)
  show ?case
  proof (cases "f symbols")
    case (Inl e)
    then show ?thesis using Cons by (simp add: x try_except_def)
  next
    case (Inr d)
    obtain A1 P1 where m: "merge_prices name d (A, P) = (A1, P1)" by (cases "merge_prices name d (A, P)")
    have "overlay P0 A1 P1" using overlay_merge[OF Cons.prems(1) m] .
    then show ?thesis using Cons.IH[of A1 P1] Cons.prems(2) by (simp add: x Inr m try_except_def)
  qed
qed

lemma merge_provenance:
  "merge_prices ex d (A, P) = (A', P') \<Longrightarrow> quote_at A' s e = Some q \<Longrightarrow>
     quote_at A s e = Some q \<or> (e = ex \<and> (s, q) \<in> set d)"
proof (induction d arbitrary: A P)
  case Nil then show ?case by simp
next
  case (Cons x d)
  obtain s0 q0 where x: "x = (s0, q0)" by (cases x)
  from Cons.prems(1) have m: "merge_prices ex d (set_quote A s0 ex q0, set_quote P s0 ex q0) = (A', P')"
    by (simp add: x)
  from Cons.IH[OF m Cons.prems(2)]
  show ?case by (auto simp: x quote_at_set_quote split: if_splits)
qed

lemma loop_provenance:
  "fetch_loop exs symbols (A, P) = Inr (A', P') \<Longrightarrow> quote_at A' s e = Some q \<Longrightarrow>
     quote_at A s e = Some q \<or> (\<exists>f d. (e, f) \<in> set exs \<and> f symbols = Inr d \<and> (s, q) \<in> set d)"
proof (induction exs arbitrary: A P)
  case Nil then show ?case by simp
next
  case (Cons x exs)
  obtain name f where x: "x = (name, f)" by (cases x)
  show ?case
  proof (cases "f symbols")
    case (Inl err)
    then have "fetch_loop exs symbols (A, P) = Inr (A', P')"
      using Cons.prems(1) by (simp add: x try_except_def)
    from Cons.IH[OF this Cons.prems(2)] show ?thesis by auto
  next
    case (Inr d)
    obtain A1 P1 where m: "merge_prices name d (A, P) = (A1, P1)" by (cases "merge_prices name d (A, P)")
    have l: "fetch_loop exs symbols (A1, P1) = Inr (A', P')"
      using Cons.prems(1) by (simp add: x Inr m try_except_def)
    from Cons.IH[OF l Cons.prems(2)]
    show ?thesis
    proof
      assume "quote_at A1 s e = Some q"
      from merge_provenance[OF m this] show ?thesis using Inr x by auto
    next
      assume "\<exists>f d. (e, f) \<in> set exs \<and> f symbols = Inr d \<and> (s, q) \<in> set d"
      then show ?thesis by auto
    qed
  qed
qed

lemma merge_other_exchange:
  "merge_prices ex d (A, P) = (A', P') \<Longrightarrow> e \<noteq> ex \<Longrightarrow> quote_at A' s e = quote_at A s e"
proof (induction d arbitrary: A P)
  case Nil then show ?case by simp
next
  case (Cons x d)
  obtain s0 q0 where x: "x = (s0, q0)" by (cases x)
  from Cons.prems(1) have m: "merge_prices ex d (set_quote A s0 ex q0, set_quote P s0 ex q0) = (A', P')"
    by (simp add: x)
  from Cons.IH[OF m Cons.prems(2)] Cons.prems(2)
  show ?case by (simp add: quote_at_set_quote)
qed

lemma loop_other_exchange:
  "fetch_loop exs symbols (A, P) = Inr (A', P') \<Longrightarrow> e \<notin> fst ` set exs \<Longrightarrow>
     quote_at A' s e = quote_at A s e"
proof (induction exs arbitrary: A P)
  case Nil then show ?case by simp
next
  case (Cons x exs)
  obtain name f where x: "x = (name, f)" by (cases x)
  have ne: "e \<noteq> name" and nin: "e \<notin> fst ` set exs" using Cons.prems(2) by (auto simp: x)
  show ?case
  proof (cases "f symbols")
    case (Inl err)
    then have "fetch_loop exs symbols (A, P) = Inr (A', P')"
      using Cons.prems(1) by (simp add: x try_except_def)
    from Cons.IH[OF this nin] show ?thesis .
  next
    case (Inr d)
    obtain A1 P1 where m: "merge_prices name d (A, P) = (A1, P1)" by (cases "merge_prices name d (A, P)")
    have l: "fetch_loop exs symbols (A1, P1) = Inr (A', P')"
      using Cons.prems(1) by (simp add: x Inr m try_except_def)
    from Cons.IH[OF l nin] merge_other_exchange[OF m ne] show ?thesis by simp
  qed
qed

lemma merge_other_symbol:
  "merge_prices ex d (A, P) = (A', P') \<Longrightarrow> s \<notin> fst ` set d \<Longrightarrow> quote_at A' s e = quote_at A s e"
proof (induction d arbitrary: A P)
  case Nil then show ?case by simp
next
  case (Cons x d)
  obtain s0 q0 where x: "x = (s0, q0)" by (cases x)
  from Cons.prems(1) have m: "merge_prices ex d (set_quote A s0 ex q0, set_quote P s0 ex q0) = (A', P')"
    by (simp add: x)
  have ne: "s \<noteq> s0" and nin: "s \<notin> fst ` set d" using Cons.prems(2) by (auto simp: x)
  from Cons.IH[OF m nin] ne show ?case by (simp add: quote_at_set_quote)
qed

lemma merge_contains:
  "merge_prices ex d (A, P) = (A', P') \<Longrightarrow> distinct (map fst d) \<Longrightarrow> (s, q) \<in> set d \<Longrightarrow>
     quote_at A' s ex = Some q"
proof (induction d arbitrary: A P)
  case Nil then show ?case by simp
next
  case (Cons x d)
  obtain s0 q0 where x: "x = (s0, q0)" by (cases x)
  from Cons.prems(1) have m: "merge_prices ex d (set_quote A s0 ex q0, set_quote P s0 ex q0) = (A', P')"
    by (simp add: x)
  have dd: "distinct (map fst d)" and s0: "s0 \<notin> fst ` set d" using Cons.prems(2) by (auto simp: x)
  show ?case
  proof (cases "(s, q) \<in> set d")
    case True
    from Cons.IH[OF m dd True] show ?thesis .
  next
    case False
    then have eq: "s = s0" "q = q0" using Cons.prems(3) by (auto simp: x)
    from merge_other_symbol[OF m s0, of ex] show ?thesis by (simp add: eq quote_at_set_quote)
  qed
qed

lemma loop_contains:
  "fetch_loop exs symbols (A, P) = Inr (A', P') \<Longrightarrow> distinct (map fst exs) \<Longrightarrow>
   (name, f) \<in> set exs \<Longrightarrow> f symbols = Inr d \<Longrightarrow> distinct (map fst d) \<Longrightarrow> (s, q) \<in> set d \<Longrightarrow>
     quote_at A' s name = Some q"
proof (induction exs arbitrary: A P)
  case Nil then show ?case by simp
next
  case (Cons x exs)
  obtain n0 f0 where x: "x = (n0, f0)" by (cases x)
  have dn: "distinct (map fst exs)" and n0: "n0 \<notin> fst ` set exs" using Cons.prems(2) by (auto simp: x)
  show ?case
  proof (cases "(name, f) \<in> set exs")
    case True
    obtain A1 P1 where l: "fetch_loop exs symbols (A1, P1) = Inr (A', P')"
      using Cons.prems(1)
      by (cases "f0 symbols"; cases "merge_prices n0 (projr (f0 symbols)) (A, P)")
         (auto simp: x try_except_def)
    from Cons.IH[OF l dn True Cons.prems(4,5,6)] show ?thesis .
  next
    case False
    then have eq: "n0 = name" "f0 = f" using Cons.prems(3) by (auto simp: x)
    obtain A1 P1 where m: "merge_prices name d (A, P) = (A1, P1)" by (cases "merge_prices name d (A, P)")
    have l: "fetch_loop exs symbols (A1, P1) = Inr (A', P')"
      using Cons.prems(1) by (simp add: x eq Cons.prems(4) m try_except_def)
    have "quote_at A' s name = quote_at A1 s name"
      using loop_other_exchange[OF l] n0 eq by simp
    also have "\<dots> = Some q" using merge_contains[OF m Cons.prems(5,6)] .
    finally show ?thesis .
  qed
qed

lemma merge_absent:
  "merge_prices ex d (A, P) = (A', P') \<Longrightarrow> s \<notin> fst ` set d \<Longrightarrow> map_of A s = None \<Longrightarrow>
     map_of A' s = None"
proof (induction d arbitrary: A P)
  case Nil then show ?case by simp
next
  case (Cons x d)
  obtain s0 q0 where x: "x = (s0, q0)" by (cases x)
  from Cons.prems(1) have m: "merge_prices ex d (set_quote A s0 ex q0, set_quote P s0 ex q0) = (A', P')"
    by (simp add: x)
  have ne: "s \<noteq> s0" and nin: "s \<notin> fst ` set d" using Cons.prems(2) by (auto simp: x)
  have "map_of (set_quote A s0 ex q0) s = None" using ne Cons.prems(3) by (simp add: map_of_set_quote_None)
  from Cons.IH[OF m nin this] show ?case .
qed

lemma loop_absent:
  "fetch_loop exs symbols (A, P) = Inr (A', P') \<Longrightarrow>
   \<forall>(name, f) \<in> set exs. \<forall>d. f symbols = Inr d \<longrightarrow> s \<notin> fst ` set d \<Longrightarrow>
   map_of A s = None \<Longrightarrow> map_of A' s = None"
proof (induction exs arbitrary: A P)
  case Nil then show ?case by simp
next
  case (Cons x exs)
  obtain n0 f0 where x: "x = (n0, f0)" by (cases x)
  have rest: "\<forall>(name, f) \<in> set exs. \<forall>d. f symbols = Inr d \<longrightarrow> s \<notin> fst ` set d"
    using Cons.prems(2) by auto
  show ?case
  proof (cases "f0 symbols")
    case (Inl err)
    then have "fetch_loop exs symbols (A, P) = Inr (A', P')"
      using Cons.prems(1) by (simp add: x try_except_def)
    from Cons.IH[OF this rest Cons.prems(3)] show ?thesis .
  next
    case (Inr d)
    obtain A1 P1 where m: "merge_prices n0 d (A, P) = (A1, P1)" by (cases "merge_prices n0 d (A, P)")
    have l: "fetch_loop exs symbols (A1, P1) = Inr (A', P')"
      using Cons.prems(1) by (simp add: x Inr m try_except_def)
    have "s \<notin> fst ` set d" using Cons.prems(2) Inr by (auto simp: x)
    from merge_absent[OF m this Cons.prems(3)] have "map_of A1 s = None" .
    from Cons.IH[OF l rest this] show ?thesis .
  qed
qed

text \<open>
  Claim C7. \<open>fetch_all_prices\<close> never raises, whatever subset of the adapters raises or
  returns nothing: it returns a table that holds, under \<open>table[symbol][exchange_name]\<close>,
  every quote returned by each adapter that did not fail, and a symbol to which no adapter
  contributed is absent from it. The exchange names are the keys of a dictionary and each
  adapter returns a dictionary, so both have distinct keys. The Binance adapter itself
  never raises.
\<close>

theorem fetch_all_prices_tolerates_failures:
  assumes dn: "distinct (map fst exchs)"
    and dd: "\<forall>(name, f) \<in> set exchs. \<forall>d. f symbols = Inr d \<longrightarrow> distinct (map fst d)"
  shows "\<exists>all_prices self_prices'.
           fetch_all_prices exchs self_prices symbols = Inr (all_prices, self_prices')
         \<and> (\<forall>(name, f) \<in> set exchs. \<forall>d. f symbols = Inr d \<longrightarrow>
               (\<forall>(s, q) \<in> set d. quote_at all_prices s name = Some q))
         \<and> (\<forall>s. (\<forall>(name, f) \<in> set exchs. \<forall>d. f symbols = Inr d \<longrightarrow> s \<notin> fst ` set d)
               \<longrightarrow> map_of all_prices s = None)
         \<and> (\<forall>now reply e. fetch_binance now reply symbols \<noteq> Inl e)"
proof -
  obtain A' P' where r: "fetch_loop exchs symbols ([], self_prices) = Inr (A', P')"
    using fetch_loop_Inr[of exchs symbols "([], self_prices)"] by (metis surj_pair)
  have c1: "\<forall>(name, f) \<in> set exchs. \<forall>d. f symbols = Inr d \<longrightarrow>
               (\<forall>(s, q) \<in> set d. quote_at A' s name = Some q)"
    using loop_contains[OF r dn] dd by blast
  have c2: "\<forall>s. (\<forall>(name, f) \<in> set exchs. \<forall>d. f symbols = Inr d \<longrightarrow> s \<notin> fst ` set d)
               \<longrightarrow> map_of A' s = None"
    using loop_absent[OF r] by simp
  have c3: "\<forall>now reply e. fetch_binance now reply symbols \<noteq> Inl e"
    using fetch_binance_Inr by (metis sum.distinct(1))
  show ?thesis unfolding fetch_all_prices_def using r c1 c2 c3 by blast
qed

theorem fetch_all_prices_tolerates_failures_witness:
  "\<exists>all_prices self_prices'.
      fetch_all_prices partial_failure_cycle [] [''BTC/USDT'', ''ETH/USDT'', ''SOL/USDT'']
        = Inr (all_prices, self_prices')
    \<and> quote_at all_prices ''BTC/USDT'' ''binance'' = Some (quote ''BTC/USDT'' ''binance'' 100 99 100)
    \<and> quote_at all_prices ''BTC/USDT'' ''bybit'' = Some (quote ''BTC/USDT'' ''bybit'' 101 101 102)
    \<and> quote_at all_prices ''ETH/USDT'' ''kucoin'' = Some (quote ''ETH/USDT'' ''kucoin'' 10 9 11)
    \<and> map_of all_prices ''SOL/USDT'' = None"
proof -
  let ?syms = "[''BTC/USDT'', ''ETH/USDT'', ''SOL/USDT'']"
  have h1: "distinct (map fst partial_failure_cycle)"
    by (simp add: partial_failure_cycle_def exchanges_def)
  have h2: "\<forall>(name, f) \<in> set partial_failure_cycle. \<forall>d. f ?syms = Inr d \<longrightarrow> distinct (map fst d)"
    by (simp add: partial_failure_cycle_def exchanges_def)
  from fetch_all_prices_tolerates_failures[OF h1 h2, of "[]"]
  obtain A P where r: "fetch_all_prices partial_failure_cycle [] ?syms = Inr (A, P)"
    and c1: "\<forall>(name, f) \<in> set partial_failure_cycle. \<forall>d. f ?syms = Inr d \<longrightarrow>
               (\<forall>(s, q) \<in> set d. quote_at A s name = Some q)"
    and c2: "\<forall>s. (\<forall>(name, f) \<in> set partial_failure_cycle. \<forall>d. f ?syms = Inr d \<longrightarrow> s \<notin> fst ` set d)
               \<longrightarrow> map_of A s = None"
    by blast
  have m1: "(''binance'', \<lambda>symbols. Inr [(''BTC/USDT'', quote ''BTC/USDT'' ''binance'' 100 99 100)])
              \<in> set partial_failure_cycle"
    by (simp add: partial_failure_cycle_def exchanges_def)
  have m2: "(''bybit'', \<lambda>symbols. Inr [(''BTC/USDT'', quote ''BTC/USDT'' ''bybit'' 101 101 102)])
              \<in> set partial_failure_cycle"
    by (simp add: partial_failure_cycle_def exchanges_def)
  have m3: "(''kucoin'', \<lambda>symbols. Inr [(''ETH/USDT'', quote ''ETH/USDT'' ''kucoin'' 10 9 11)])
              \<in> set partial_failure_cycle"
    by (simp add: partial_failure_cycle_def exchanges_def)
  have q1: "quote_at A ''BTC/USDT'' ''binance'' = Some (quote ''BTC/USDT'' ''binance'' 100 99 100)"
    using bspec[OF c1 m1] by simp
  have q2: "quote_at A ''BTC/USDT'' ''bybit'' = Some (quote ''BTC/USDT'' ''bybit'' 101 101 102)"
    using bspec[OF c1 m2] by simp
  have q3: "quote_at A ''ETH/USDT'' ''kucoin'' = Some (quote ''ETH/USDT'' ''kucoin'' 10 9 11)"
    using bspec[OF c1 m3] by simp
  have "\<forall>(name, f) \<in> set partial_failure_cycle. \<forall>d. f ?syms = Inr d \<longrightarrow> ''SOL/USDT'' \<notin> fst ` set d"
    by (simp add: partial_failure_cycle_def exchanges_def)
  with c2 have q4: "map_of A ''SOL/USDT'' = None" by blast
  from r q1 q2 q3 q4 show ?thesis by blast
qed

text \<open>
  Claim C3, as amended. The table returned by \<open>fetch_all_prices\<close> is rebuilt by each
  call and holds only quotes produced by that call. The table \<open>find_arbitrage\<close> reads,
  \<open>self.prices\<close>, is cumulative: after the call each key holds the quote of this call
  where there is one, and otherwise keeps the entry it had before.
\<close>

theorem fetch_all_prices_tables:
  assumes "fetch_all_prices exchs self_prices symbols = Inr (all_prices, self_prices')"
  shows "(\<forall>s e q. quote_at all_prices s e = Some q \<longrightarrow>
            (\<exists>f d. (e, f) \<in> set exchs \<and> f symbols = Inr d \<and> (s, q) \<in> set d))
       \<and> (\<forall>s e. quote_at self_prices' s e =
            (case quote_at all_prices s e of Some q \<Rightarrow> Some q | None \<Rightarrow> quote_at self_prices s e))"
proof -
  from assms have r: "fetch_loop exchs symbols ([], self_prices) = Inr (all_prices, self_prices')"
    by (simp add: fetch_all_prices_def)
  have "overlay self_prices [] self_prices" by (simp add: overlay_def quote_at_def)
  from overlay_loop[OF this r] have b: "overlay self_prices all_prices self_prices'" .
  have a: "\<forall>s e q. quote_at all_prices s e = Some q \<longrightarrow>
            (\<exists>f d. (e, f) \<in> set exchs \<and> f symbols = Inr d \<and> (s, q) \<in> set d)"
    using loop_provenance[OF r] by (simp add: quote_at_def)
  from a b show ?thesis by (simp add: overlay_def)
qed

theorem fetch_all_prices_tables_witness:
  "quote_at stale_table ''BTC/USDT'' ''binance'' = Some (quote ''BTC/USDT'' ''binance'' 101 101 (203/2))
   \<and> quote_at stale_table ''BTC/USDT'' ''coinbase'' = Some (quote ''BTC/USDT'' ''coinbase'' 100 (199/2) 100)"
proof -
  have run: "fetch_all_prices stale_cycle_2
        [(''BTC/USDT'', [(''binance'', quote ''BTC/USDT'' ''binance'' 101 101 (203/2)),
                         (''coinbase'', quote ''BTC/USDT'' ''coinbase'' 100 99 100)])]
        [''BTC/USDT'']
     = Inr ([(''BTC/USDT'', [(''coinbase'', quote ''BTC/USDT'' ''coinbase'' 100 (199/2) 100)])],
            stale_table)"
    by (simp add: fetch_all_prices_def stale_cycle_2_def stale_table_def
        exchanges_def try_except_def set_quote_def)
  from fetch_all_prices_tables[OF run] show ?thesis
    by (simp add: quote_at_def)
qed

text \<open>
  Claim C3 as stated fails: Binance answers in one cycle and raises in the next; the
  returned table of the second cycle has no Binance entry, but \<open>self.prices\<close> still
  holds the earlier Binance quote, and \<open>find_arbitrage\<close> reports an opportunity
  that sells at it.
\<close>

theorem fetch_all_prices_keeps_stale_quote:
  "fetch_all_prices stale_cycle_1 [] [''BTC/USDT'']
     = Inr ([(''BTC/USDT'', [(''binance'', quote ''BTC/USDT'' ''binance'' 101 101 (203/2)),
                             (''coinbase'', quote ''BTC/USDT'' ''coinbase'' 100 99 100)])],
            [(''BTC/USDT'', [(''binance'', quote ''BTC/USDT'' ''binance'' 101 101 (203/2)),
                             (''coinbase'', quote ''BTC/USDT'' ''coinbase'' 100 99 100)])])
   \<and> fetch_all_prices stale_cycle_2
        [(''BTC/USDT'', [(''binance'', quote ''BTC/USDT'' ''binance'' 101 101 (203/2)),
                         (''coinbase'', quote ''BTC/USDT'' ''coinbase'' 100 99 100)])]
        [''BTC/USDT'']
     = Inr ([(''BTC/USDT'', [(''coinbase'', quote ''BTC/USDT'' ''coinbase'' 100 (199/2) 100)])],
            stale_table)
   \<and> quote_at stale_table ''BTC/USDT'' ''binance'' = Some (quote ''BTC/USDT'' ''binance'' 101 101 (203/2))
   \<and> find_arbitrage stale_table [''BTC/USDT''] (1/2) ''t2''
     = [\<lparr> opp_symbol = ''BTC/USDT'', buy_exchange = ''coinbase'', sell_exchange = ''binance'',
          buy_price = 100, sell_price = 101, profit_pct = 1, profit_usd = 1,
          opp_timestamp = ''t2'' \<rparr>]"
  by (simp add: fetch_all_prices_def stale_cycle_1_def stale_cycle_2_def stale_table_def
        exchanges_def try_except_def set_quote_def quote_at_def
        find_arbitrage_def sorted_reverse_def check_symbol_def quote_def)

section \<open>Proofs: AlertManager\<close>

lemma sink_calls_run_callbacks: "filter is_sink_call (run_callbacks cbs i a) = []"
  by (induction cbs arbitrary: i) (auto split: option.splits)

lemma filter_sink_calls_for: "filter is_sink_call (sink_calls_for self a) = sink_calls_for self a"
  by (simp add: sink_calls_for_def)

lemma send_alert_suppressed:
  assumes "key_given dedup_key"
    and "is_duplicate self (generate_alert_id atype symbol (alert_key w sev dedup_key) (today w)) (now_check w)"
  shows "send_alert self w atype symbol msg dat sev dedup_key
         = (self, [PrintSuppressed (generate_alert_id atype symbol (alert_key w sev dedup_key) (today w))], Inr False)"
  using assms by (simp add: send_alert_def Let_def)

lemma send_alert_delivered:
  assumes "\<not> (key_given dedup_key \<and>
     is_duplicate self (generate_alert_id atype symbol (alert_key w sev dedup_key) (today w)) (now_check w))"
  shows "fst (send_alert self w atype symbol msg dat sev dedup_key)
         = self \<lparr> alert_history := AList.update (generate_alert_id atype symbol (alert_key w sev dedup_key) (today w))
                                      (now_track w) (alert_history self),
                   sent_alerts := sent_alerts self @ [new_alert w atype symbol msg dat sev dedup_key] \<rparr>"
    and "filter is_sink_call (fst (snd (send_alert self w atype symbol msg dat sev dedup_key)))
         = sink_calls_for self (new_alert w atype symbol msg dat sev dedup_key)"
  using assms
  by (auto simp: send_alert_def Let_def sink_calls_for_def sink_calls_run_callbacks split: sum.splits)

lemma is_duplicate_iff:
  "is_duplicate self aid now \<longleftrightarrow>
     (\<exists>last_sent. map_of (alert_history self) aid = Some last_sent
         \<and> now - last_sent < timedelta_minutes (cooldown_minutes self))"
  by (simp add: is_duplicate_def Let_def split: option.splits)

lemma alert_key_given: "k \<noteq> [] \<Longrightarrow> alert_key w sev (Some k) = k"
  by (simp add: alert_key_def)

lemma generate_alert_id_day:
  "generate_alert_id atype symbol k d = generate_alert_id atype symbol k d' \<longleftrightarrow> d = d'"
  by (simp add: generate_alert_id_def)

text \<open>
  Claim C4, as amended. \<open>_is_duplicate\<close> is true exactly when the ledger has an entry
  for the id and the time since its timestamp is strictly less than the cooldown. Of two
  \<open>send_alert\<close> calls with the same type, symbol and non-empty \<open>dedup_key\<close> on the
  same calendar day, the first not itself a duplicate and the second checked within the
  cooldown of the first, the first is handed to the configured sinks and the second is
  not; a third call checked once the cooldown has elapsed (on that day, or on another day
  for whose id the ledger holds no entry within its cooldown) is handed to them again.
  A call whose \<open>dedup_key\<close> is \<open>None\<close> or empty is never deduplicated: it is
  always logged and handed to the sinks.
\<close>

theorem cooldown_dedup:
  assumes k: "k \<noteq> []"
    and first: "\<not> is_duplicate self (generate_alert_id atype symbol k (today w1)) (now_check w1)"
    and same_day: "today w2 = today w1"
    and within: "now_check w2 - now_track w1 < timedelta_minutes (cooldown_minutes self)"
    and after: "now_check w3 - now_track w1 \<ge> timedelta_minutes (cooldown_minutes self)"
    and third: "today w3 = today w1
                \<or> \<not> is_duplicate self (generate_alert_id atype symbol k (today w3)) (now_check w3)"
  shows "(\<forall>m aid now. is_duplicate m aid now \<longleftrightarrow>
            (\<exists>last_sent. map_of (alert_history m) aid = Some last_sent
                \<and> now - last_sent < timedelta_minutes (cooldown_minutes m)))
       \<and> (case send_alert self w1 atype symbol msg1 dat1 sev1 (Some k) of (self1, done1, r1) \<Rightarrow>
            filter is_sink_call done1 = sink_calls_for self (new_alert w1 atype symbol msg1 dat1 sev1 (Some k))
          \<and> (case send_alert self1 w2 atype symbol msg2 dat2 sev2 (Some k) of (self2, done2, r2) \<Rightarrow>
                self2 = self1 \<and> filter is_sink_call done2 = [] \<and> r2 = Inr False
              \<and> (case send_alert self2 w3 atype symbol msg3 dat3 sev3 (Some k) of (self3, done3, r3) \<Rightarrow>
                    filter is_sink_call done3
                      = sink_calls_for self (new_alert w3 atype symbol msg3 dat3 sev3 (Some k))
                  \<and> sent_alerts self3
                      = sent_alerts self @ [new_alert w1 atype symbol msg1 dat1 sev1 (Some k),
                                            new_alert w3 atype symbol msg3 dat3 sev3 (Some k)])))
       \<and> (\<forall>m w ty sy msg dat sev dedup_key. \<not> key_given dedup_key \<longrightarrow>
            (case send_alert m w ty sy msg dat sev dedup_key of (m', done, r) \<Rightarrow>
               filter is_sink_call done = sink_calls_for m (new_alert w ty sy msg dat sev dedup_key)
             \<and> sent_alerts m' = sent_alerts m @ [new_alert w ty sy msg dat sev dedup_key]))"
proof -
  let ?id = "\<lambda>w. generate_alert_id atype symbol k (today w)"
  have kg: "key_given (Some k)" using k by (simp add: key_given_def)
  have key: "\<And>w sev. alert_key w sev (Some k) = k" using k by (simp add: alert_key_def)
  \<comment> \<open>first call\<close>
  have nd1: "\<not> (key_given (Some k) \<and> is_duplicate self (generate_alert_id atype symbol (alert_key w1 sev1 (Some k)) (today w1)) (now_check w1))"
    using first by (simp add: key)
  define self1 where "self1 = self \<lparr> alert_history := AList.update (?id w1) (now_track w1) (alert_history self),
                   sent_alerts := sent_alerts self @ [new_alert w1 atype symbol msg1 dat1 sev1 (Some k)] \<rparr>"
  have f1: "fst (send_alert self w1 atype symbol msg1 dat1 sev1 (Some k)) = self1"
    using send_alert_delivered(1)[OF nd1, of msg1 dat1] by (simp add: key self1_def)
  have s1: "filter is_sink_call (fst (snd (send_alert self w1 atype symbol msg1 dat1 sev1 (Some k))))
            = sink_calls_for self (new_alert w1 atype symbol msg1 dat1 sev1 (Some k))"
    using send_alert_delivered(2)[OF nd1] .
  \<comment> \<open>second call\<close>
  have h1: "map_of (alert_history self1) (?id w1) = Some (now_track w1)"
    by (simp add: self1_def update_conv')
  have cd1: "cooldown_minutes self1 = cooldown_minutes self" by (simp add: self1_def)
  have d2: "is_duplicate self1 (generate_alert_id atype symbol (alert_key w2 sev2 (Some k)) (today w2)) (now_check w2)"
    using within h1 by (simp add: key same_day is_duplicate_def cd1)
  have r2: "send_alert self1 w2 atype symbol msg2 dat2 sev2 (Some k)
            = (self1, [PrintSuppressed (generate_alert_id atype symbol (alert_key w2 sev2 (Some k)) (today w2))], Inr False)"
    using send_alert_suppressed[OF kg d2] .
  \<comment> \<open>third call\<close>
  have nd3': "\<not> is_duplicate self1 (?id w3) (now_check w3)"
  proof (cases "today w3 = today w1")
    case True
    then show ?thesis using after h1 by (simp add: is_duplicate_def cd1)
  next
    case False
    then have other: "map_of (alert_history self1) (?id w3) = map_of (alert_history self) (?id w3)"
      by (simp add: self1_def update_conv' generate_alert_id_day)
    have "\<not> is_duplicate self (?id w3) (now_check w3)" using third False by simp
    then show ?thesis by (simp add: is_duplicate_iff other cd1)
  qed
  have nd3: "\<not> (key_given (Some k) \<and> is_duplicate self1 (generate_alert_id atype symbol (alert_key w3 sev3 (Some k)) (today w3)) (now_check w3))"
    using nd3' by (simp add: key)
  have f3: "sent_alerts (fst (send_alert self1 w3 atype symbol msg3 dat3 sev3 (Some k)))
            = sent_alerts self @ [new_alert w1 atype symbol msg1 dat1 sev1 (Some k),
                                  new_alert w3 atype symbol msg3 dat3 sev3 (Some k)]"
    using send_alert_delivered(1)[OF nd3, of msg3 dat3] by (simp add: self1_def)
  have sc: "\<And>a. sink_calls_for self1 a = sink_calls_for self a"
    by (simp add: sink_calls_for_def self1_def)
  have s3: "filter is_sink_call (fst (snd (send_alert self1 w3 atype symbol msg3 dat3 sev3 (Some k))))
            = sink_calls_for self (new_alert w3 atype symbol msg3 dat3 sev3 (Some k))"
    using send_alert_delivered(2)[OF nd3] by (simp add: sc)
  have iff: "\<forall>m aid now. is_duplicate m aid now \<longleftrightarrow>
            (\<exists>last_sent. map_of (alert_history m) aid = Some last_sent
                \<and> now - last_sent < timedelta_minutes (cooldown_minutes m))"
    by (simp add: is_duplicate_iff)
  have chain: "case send_alert self w1 atype symbol msg1 dat1 sev1 (Some k) of (self1, done1, r1) \<Rightarrow>
            filter is_sink_call done1 = sink_calls_for self (new_alert w1 atype symbol msg1 dat1 sev1 (Some k))
          \<and> (case send_alert self1 w2 atype symbol msg2 dat2 sev2 (Some k) of (self2, done2, r2) \<Rightarrow>
                self2 = self1 \<and> filter is_sink_call done2 = [] \<and> r2 = Inr False
              \<and> (case send_alert self2 w3 atype symbol msg3 dat3 sev3 (Some k) of (self3, done3, r3) \<Rightarrow>
                    filter is_sink_call done3
                      = sink_calls_for self (new_alert w3 atype symbol msg3 dat3 sev3 (Some k))
                  \<and> sent_alerts self3
                      = sent_alerts self @ [new_alert w1 atype symbol msg1 dat1 sev1 (Some k),
                                            new_alert w3 atype symbol msg3 dat3 sev3 (Some k)]))"
    using f1 s1 r2 f3 s3 by (simp add: case_prod_beta)
  have nokey: "\<forall>m w ty sy msg dat sev dedup_key. \<not> key_given dedup_key \<longrightarrow>
            (case send_alert m w ty sy msg dat sev dedup_key of (m', done, r) \<Rightarrow>
               filter is_sink_call done = sink_calls_for m (new_alert w ty sy msg dat sev dedup_key)
             \<and> sent_alerts m' = sent_alerts m @ [new_alert w ty sy msg dat sev dedup_key])"
  proof (intro allI impI)
    fix m w ty sy msg dat sev dedup_key
    assume ng: "\<not> key_given dedup_key"
    then have nd: "\<not> (key_given dedup_key \<and>
        is_duplicate m (generate_alert_id ty sy (alert_key w sev dedup_key) (today w)) (now_check w))"
      by simp
    show "case send_alert m w ty sy msg dat sev dedup_key of (m', done, r) \<Rightarrow>
               filter is_sink_call done = sink_calls_for m (new_alert w ty sy msg dat sev dedup_key)
             \<and> sent_alerts m' = sent_alerts m @ [new_alert w ty sy msg dat sev dedup_key]"
      using send_alert_delivered(1)[OF nd, of msg dat] send_alert_delivered(2)[OF nd, of msg dat]
      by (simp add: case_prod_beta)
  qed
  from iff chain nokey show ?thesis by blast
qed

theorem cooldown_dedup_witness:
  "case send_alert telegram_manager (world_at 0) WHALE_MOVEMENT ''BTC'' ''m1'' [] ''warning''
          (Some ''whale_abc'') of (self1, done1, r1) \<Rightarrow>
     filter is_sink_call done1
       = [TelegramSend (new_alert (world_at 0) WHALE_MOVEMENT ''BTC'' ''m1'' [] ''warning'' (Some ''whale_abc''))]
   \<and> (case send_alert self1 (world_at 60000000) WHALE_MOVEMENT ''BTC'' ''m2'' [] ''warning''
              (Some ''whale_abc'') of (self2, done2, r2) \<Rightarrow>
         self2 = self1 \<and> filter is_sink_call done2 = [] \<and> r2 = Inr False
       \<and> (case send_alert self2 (world_at 900000000) WHALE_MOVEMENT ''BTC'' ''m3'' [] ''warning''
                  (Some ''whale_abc'') of (self3, done3, r3) \<Rightarrow>
             filter is_sink_call done3
               = [TelegramSend (new_alert (world_at 900000000) WHALE_MOVEMENT ''BTC'' ''m3'' [] ''warning'' (Some ''whale_abc''))]
           \<and> sent_alerts self3
               = [new_alert (world_at 0) WHALE_MOVEMENT ''BTC'' ''m1'' [] ''warning'' (Some ''whale_abc''),
                  new_alert (world_at 900000000) WHALE_MOVEMENT ''BTC'' ''m3'' [] ''warning'' (Some ''whale_abc'')]))"
proof -
  have h1: "''whale_abc'' \<noteq> []" by simp
  have h2: "\<not> is_duplicate telegram_manager
              (generate_alert_id WHALE_MOVEMENT ''BTC'' ''whale_abc'' (today (world_at 0)))
              (now_check (world_at 0))"
    by (simp add: is_duplicate_def telegram_manager_def AlertManager_init_def)
  have h3: "today (world_at 60000000) = today (world_at 0)" by (simp add: world_at_def)
  have h4: "now_check (world_at 60000000) - now_track (world_at 0)
              < timedelta_minutes (cooldown_minutes telegram_manager)"
    by (simp add: world_at_def timedelta_minutes_def telegram_manager_def AlertManager_init_def)
  have h5: "now_check (world_at 900000000) - now_track (world_at 0)
              \<ge> timedelta_minutes (cooldown_minutes telegram_manager)"
    by (simp add: world_at_def timedelta_minutes_def telegram_manager_def AlertManager_init_def)
  have h6: "today (world_at 900000000) = today (world_at 0)
            \<or> \<not> is_duplicate telegram_manager
                 (generate_alert_id WHALE_MOVEMENT ''BTC'' ''whale_abc'' (today (world_at 900000000)))
                 (now_check (world_at 900000000))"
    by (simp add: world_at_def)
  have sc: "\<And>a. sink_calls_for telegram_manager a = [TelegramSend a]"
    by (simp add: sink_calls_for_def telegram_manager_def AlertManager_init_def
          telegram_is_configured_def discord_is_configured_def str_or_def)
  have sa: "sent_alerts telegram_manager = []"
    by (simp add: telegram_manager_def AlertManager_init_def)
  have c: "case send_alert telegram_manager (world_at 0) WHALE_MOVEMENT ''BTC'' ''m1'' [] ''warning''
          (Some ''whale_abc'') of (self1, done1, r1) \<Rightarrow>
     filter is_sink_call done1
       = sink_calls_for telegram_manager (new_alert (world_at 0) WHALE_MOVEMENT ''BTC'' ''m1'' [] ''warning'' (Some ''whale_abc''))
   \<and> (case send_alert self1 (world_at 60000000) WHALE_MOVEMENT ''BTC'' ''m2'' [] ''warning''
              (Some ''whale_abc'') of (self2, done2, r2) \<Rightarrow>
         self2 = self1 \<and> filter is_sink_call done2 = [] \<and> r2 = Inr False
       \<and> (case send_alert self2 (world_at 900000000) WHALE_MOVEMENT ''BTC'' ''m3'' [] ''warning''
                  (Some ''whale_abc'') of (self3, done3, r3) \<Rightarrow>
             filter is_sink_call done3
               = sink_calls_for telegram_manager (new_alert (world_at 900000000) WHALE_MOVEMENT ''BTC'' ''m3'' [] ''warning'' (Some ''whale_abc''))
           \<and> sent_alerts self3
               = sent_alerts telegram_manager @ [new_alert (world_at 0) WHALE_MOVEMENT ''BTC'' ''m1'' [] ''warning'' (Some ''whale_abc''),
                  new_alert (world_at 900000000) WHALE_MOVEMENT ''BTC'' ''m3'' [] ''warning'' (Some ''whale_abc'')]))"
    using cooldown_dedup[OF h1 h2 h3 h4 h5 h6,
            where ?msg1.0 = "''m1''" and ?dat1.0 = "[]" and ?sev1.0 = "''warning''"
              and ?msg2.0 = "''m2''" and ?dat2.0 = "[]" and ?sev2.0 = "''warning''"
              and ?msg3.0 = "''m3''" and ?dat3.0 = "[]" and ?sev3.0 = "''warning''"]
    by (elim conjE)
  then show ?thesis by (simp add: sc sa)
qed

text \<open>
  Claim C4 as stated fails where no \<open>dedup_key\<close> is given: two identical calls at the
  same instant are both handed to Telegram, since the duplicate check is skipped.
\<close>

theorem no_dedup_key_both_delivered:
  "filter is_sink_call
     (fst (snd (send_alert telegram_manager (world_at 0) ARBITRAGE ''BTC'' ''m'' [] ''info'' None)))
     = [TelegramSend (new_alert (world_at 0) ARBITRAGE ''BTC'' ''m'' [] ''info'' None)]
   \<and> filter is_sink_call
       (fst (snd (send_alert
                   (fst (send_alert telegram_manager (world_at 0) ARBITRAGE ''BTC'' ''m'' [] ''info'' None))
                   (world_at 0) ARBITRAGE ''BTC'' ''m'' [] ''info'' None)))
     = [TelegramSend (new_alert (world_at 0) ARBITRAGE ''BTC'' ''m'' [] ''info'' None)]
   \<and> today (world_at 0) = today (world_at 0)
   \<and> now_check (world_at 0) - now_track (world_at 0) < timedelta_minutes (cooldown_minutes telegram_manager)"
  by (simp add: send_alert_def Let_def key_given_def telegram_manager_def AlertManager_init_def
        telegram_is_configured_def discord_is_configured_def str_or_def telegram_send_message_def
        world_at_def timedelta_minutes_def)

text \<open>
  Claim C10. When \<open>send_alert\<close> suppresses a duplicate (a key was given and the id is
  within its cooldown) it returns \<open>False\<close> and leaves the manager as it was: no sink is
  called, no callback runs, the ledger and the log of sent alerts are unchanged, and so is
  \<open>get_alert_stats\<close>. A call with \<open>dedup_key=None\<close> is never suppressed, whatever
  the history: the alert is logged, entered in the ledger and handed to the sinks.
\<close>

theorem suppression_changes_nothing:
  "(key_given dedup_key \<and>
      is_duplicate self (generate_alert_id atype symbol (alert_key w sev dedup_key) (today w)) (now_check w)
    \<longrightarrow> (case send_alert self w atype symbol msg dat sev dedup_key of (self', done, r) \<Rightarrow>
           r = Inr False \<and> self' = self
         \<and> filter is_sink_call done = []
         \<and> (\<forall>i a. CallbackCall i a \<notin> set done)
         \<and> alert_history self' = alert_history self
         \<and> sent_alerts self' = sent_alerts self
         \<and> (\<forall>now. get_alert_stats self' now = get_alert_stats self now)))
   \<and> (case send_alert self w atype symbol msg dat sev None of (self', done, r) \<Rightarrow>
         sent_alerts self' = sent_alerts self @ [new_alert w atype symbol msg dat sev None]
       \<and> map_of (alert_history self') (alert_id (new_alert w atype symbol msg dat sev None))
            = Some (now_track w)
       \<and> filter is_sink_call done = sink_calls_for self (new_alert w atype symbol msg dat sev None)
       \<and> (\<forall>aid. PrintSuppressed aid \<notin> set done))"
proof -
  have a: "key_given dedup_key \<and>
      is_duplicate self (generate_alert_id atype symbol (alert_key w sev dedup_key) (today w)) (now_check w)
    \<longrightarrow> (case send_alert self w atype symbol msg dat sev dedup_key of (self', done, r) \<Rightarrow>
           r = Inr False \<and> self' = self
         \<and> filter is_sink_call done = []
         \<and> (\<forall>i a. CallbackCall i a \<notin> set done)
         \<and> alert_history self' = alert_history self
         \<and> sent_alerts self' = sent_alerts self
         \<and> (\<forall>now. get_alert_stats self' now = get_alert_stats self now))"
    by (simp add: send_alert_suppressed)
  have nd: "\<not> (key_given None \<and>
     is_duplicate self (generate_alert_id atype symbol (alert_key w sev None) (today w)) (now_check w))"
    by (simp add: key_given_def)
  have b1: "fst (send_alert self w atype symbol msg dat sev None)
         = self \<lparr> alert_history := AList.update (generate_alert_id atype symbol (alert_key w sev None) (today w))
                                      (now_track w) (alert_history self),
                   sent_alerts := sent_alerts self @ [new_alert w atype symbol msg dat sev None] \<rparr>"
    using send_alert_delivered(1)[OF nd] .
  have b2: "filter is_sink_call (fst (snd (send_alert self w atype symbol msg dat sev None)))
         = sink_calls_for self (new_alert w atype symbol msg dat sev None)"
    using send_alert_delivered(2)[OF nd] .
  have cb: "\<And>cbs i a aid. PrintSuppressed aid \<notin> set (run_callbacks cbs i a)"
  proof -
    fix cbs :: "(Alert \<Rightarrow> error option) list" and i a aid
    show "PrintSuppressed aid \<notin> set (run_callbacks cbs i a)"
      by (induction cbs arbitrary: i) (auto split: option.splits)
  qed
  have b3: "\<forall>aid. PrintSuppressed aid \<notin> set (fst (snd (send_alert self w atype symbol msg dat sev None)))"
    by (auto simp: send_alert_def Let_def key_given_def cb split: sum.splits)
  have b: "case send_alert self w atype symbol msg dat sev None of (self', done, r) \<Rightarrow>
         sent_alerts self' = sent_alerts self @ [new_alert w atype symbol msg dat sev None]
       \<and> map_of (alert_history self') (alert_id (new_alert w atype symbol msg dat sev None))
            = Some (now_track w)
       \<and> filter is_sink_call done = sink_calls_for self (new_alert w atype symbol msg dat sev None)
       \<and> (\<forall>aid. PrintSuppressed aid \<notin> set done)"
    using b1 b2 b3 by (simp add: case_prod_beta update_conv' new_alert_def)
  from a b show ?thesis by blast
qed

theorem suppression_changes_nothing_witness:
  "key_given (Some ''whale_abc'')
   \<and> is_duplicate
       (fst (send_alert telegram_manager (world_at 0) WHALE_MOVEMENT ''BTC'' ''m1'' [] ''warning'' (Some ''whale_abc'')))
       (generate_alert_id WHALE_MOVEMENT ''BTC''
          (alert_key (world_at 60000000) ''warning'' (Some ''whale_abc'')) (today (world_at 60000000)))
       (now_check (world_at 60000000))
   \<and> send_alert
       (fst (send_alert telegram_manager (world_at 0) WHALE_MOVEMENT ''BTC'' ''m1'' [] ''warning'' (Some ''whale_abc'')))
       (world_at 60000000) WHALE_MOVEMENT ''BTC'' ''m2'' [] ''warning'' (Some ''whale_abc'')
     = (fst (send_alert telegram_manager (world_at 0) WHALE_MOVEMENT ''BTC'' ''m1'' [] ''warning'' (Some ''whale_abc'')),
        [PrintSuppressed ''whale_BTC_whale_abc_20240101''], Inr False)"
proof -
  let ?s = "fst (send_alert telegram_manager (world_at 0) WHALE_MOVEMENT ''BTC'' ''m1'' [] ''warning'' (Some ''whale_abc''))"
  have nd: "\<not> (key_given (Some ''whale_abc'') \<and>
     is_duplicate telegram_manager
       (generate_alert_id WHALE_MOVEMENT ''BTC'' (alert_key (world_at 0) ''warning'' (Some ''whale_abc''))
          (today (world_at 0)))
       (now_check (world_at 0)))"
    by (simp add: is_duplicate_def telegram_manager_def AlertManager_init_def)
  have st: "?s = telegram_manager
       \<lparr> alert_history := AList.update
            (generate_alert_id WHALE_MOVEMENT ''BTC'' (alert_key (world_at 0) ''warning'' (Some ''whale_abc''))
               (today (world_at 0)))
            (now_track (world_at 0)) (alert_history telegram_manager),
         sent_alerts := sent_alerts telegram_manager
            @ [new_alert (world_at 0) WHALE_MOVEMENT ''BTC'' ''m1'' [] ''warning'' (Some ''whale_abc'')] \<rparr>"
    using send_alert_delivered(1)[OF nd] .
  have h: "key_given (Some ''whale_abc'')
   \<and> is_duplicate ?s
       (generate_alert_id WHALE_MOVEMENT ''BTC''
          (alert_key (world_at 60000000) ''warning'' (Some ''whale_abc'')) (today (world_at 60000000)))
       (now_check (world_at 60000000))"
    unfolding st
    by (simp add: key_given_def is_duplicate_def alert_key_def update_conv'
          telegram_manager_def AlertManager_init_def world_at_def timedelta_minutes_def)
  have e: "send_alert ?s (world_at 60000000) WHALE_MOVEMENT ''BTC'' ''m2'' [] ''warning'' (Some ''whale_abc'')
     = (?s, [PrintSuppressed ''whale_BTC_whale_abc_20240101''], Inr False)"
    using h by (simp add: send_alert_suppressed) (simp add: generate_alert_id_def alert_key_def world_at_def)
  from suppression_changes_nothing[of "Some ''whale_abc''" ?s WHALE_MOVEMENT "''BTC''"
         "world_at 60000000" "''warning''" "''m2''" "[]"] h e
  show ?thesis by simp
qed

text \<open>
  The console fallback: with no sink configured and no callback registered, a call that is
  not suppressed prints the alert and returns \<open>True\<close>, as long as \<open>json.dumps\<close> can
  encode the alert's data.
\<close>

lemma console_fallback:
  assumes "\<not> telegram_is_configured (telegram self)"
    and "\<not> discord_is_configured (discord self)"
    and "callbacks self = []"
    and "\<not> (key_given dedup_key \<and>
            is_duplicate self (generate_alert_id atype symbol (alert_key w sev dedup_key) (today w)) (now_check w))"
    and "PyObject \<notin> snd ` set dat"
  shows "send_alert self w atype symbol msg dat sev dedup_key
         = (self \<lparr> alert_history := AList.update (generate_alert_id atype symbol (alert_key w sev dedup_key) (today w))
                                      (now_track w) (alert_history self),
                   sent_alerts := sent_alerts self @ [new_alert w atype symbol msg dat sev dedup_key] \<rparr>,
            [PrintAlert (new_alert w atype symbol msg dat sev dedup_key), PrintData dat],
            Inr True)"
  using assms
  by (auto simp: send_alert_def Let_def json_dumps_def new_alert_def)

lemma console_fallback_run:
  "send_alert console_manager (world_at 0) ARBITRAGE ''BTC'' ''m'' [(''profit_pct'', PyFloat 1)] ''critical''
      (Some ''arbitrage_BTC_a_b'')
   = (console_manager
        \<lparr> alert_history := [(''arbitrage_BTC_arbitrage_BTC_a_b_20240101'', 0)],
          sent_alerts := [new_alert (world_at 0) ARBITRAGE ''BTC'' ''m'' [(''profit_pct'', PyFloat 1)]
                            ''critical'' (Some ''arbitrage_BTC_a_b'')] \<rparr>,
      [PrintAlert (new_alert (world_at 0) ARBITRAGE ''BTC'' ''m'' [(''profit_pct'', PyFloat 1)]
                     ''critical'' (Some ''arbitrage_BTC_a_b'')),
       PrintData [(''profit_pct'', PyFloat 1)]],
      Inr True)"
proof -
  have h1: "\<not> telegram_is_configured (telegram console_manager)"
    by (simp add: console_manager_def AlertManager_init_def telegram_is_configured_def str_or_def)
  have h2: "\<not> discord_is_configured (discord console_manager)"
    by (simp add: console_manager_def AlertManager_init_def discord_is_configured_def str_or_def)
  have h3: "callbacks console_manager = []"
    by (simp add: console_manager_def AlertManager_init_def)
  have h4: "\<not> (key_given (Some ''arbitrage_BTC_a_b'') \<and>
            is_duplicate console_manager
              (generate_alert_id ARBITRAGE ''BTC''
                 (alert_key (world_at 0) ''critical'' (Some ''arbitrage_BTC_a_b'')) (today (world_at 0)))
              (now_check (world_at 0)))"
    by (simp add: console_manager_def AlertManager_init_def is_duplicate_def)
  have h5: "PyObject \<notin> snd ` set [(''profit_pct'', PyFloat 1)]" by simp
  from console_fallback[OF h1 h2 h3 h4 h5, of "''m''"]
  show ?thesis
    by (simp add: generate_alert_id_def alert_key_def world_at_def console_manager_def
          AlertManager_init_def)
qed

text \<open>
  Claim C8 at a data dictionary that \<open>json.dumps\<close> cannot encode: the fallback prints
  the head of the alert, then \<open>json.dumps\<close> raises \<open>TypeError\<close> and
  \<open>send_alert\<close> does not return \<open>True\<close>. The alert is already in the ledger and
  in the log.
\<close>

theorem console_fallback_raises_on_unencodable_data:
  "\<not> telegram_is_configured (telegram console_manager)
   \<and> \<not> discord_is_configured (discord console_manager)
   \<and> callbacks console_manager = []
   \<and> send_alert console_manager (world_at 0) WHALE_MOVEMENT ''BTC'' ''m'' [(''seen'', PyObject)] ''info'' None
     = (console_manager
          \<lparr> alert_history := [(''whale_BTC_info_0_20240101'', 0)],
            sent_alerts := [new_alert (world_at 0) WHALE_MOVEMENT ''BTC'' ''m'' [(''seen'', PyObject)] ''info'' None] \<rparr>,
        [PrintAlert (new_alert (world_at 0) WHALE_MOVEMENT ''BTC'' ''m'' [(''seen'', PyObject)] ''info'' None)],
        Inl TypeError)"
  by (simp add: send_alert_def Let_def key_given_def json_dumps_def new_alert_def
        generate_alert_id_def alert_key_def str_int_def str_nat.simps digit_def
        console_manager_def AlertManager_init_def telegram_is_configured_def
        discord_is_configured_def str_or_def world_at_def)

section \<open>Proofs: price-change detection\<close>








section \<open>Proofs: the monitoring loop\<close>

lemma process_users_abort:
  "process_users now it prices us1 s = (s1, None) \<Longrightarrow>
   process_user now it prices u s1 = (s2, Some e) \<Longrightarrow>
   process_users now it prices (us1 @ u # us2) s = (s2, Some e)"
proof (induction us1 arbitrary: s)
  case Nil then show ?case by simp
next
  case (Cons a us1)
  obtain sa ea where a: "process_user now it prices a s = (sa, ea)" by (cases "process_user now it prices a s")
  show ?case
  proof (cases ea)
    case None
    then have "process_users now it prices us1 sa = (s1, None)" using Cons.prems(1) a by simp
    from Cons.IH[OF this Cons.prems(2)] show ?thesis using a None by simp
  next
    case (Some err)
    then show ?thesis using Cons.prems(1) a by simp
  qed
qed

lemma price_changes_loop_attribute_error:
  "pm_previous_prices s = None \<Longrightarrow> (symbol, d) \<in> set prices \<Longrightarrow>
   symbol \<in> set (user_symbols user) \<Longrightarrow> d \<noteq> [] \<Longrightarrow>
   price_changes_loop user prices s = (s, Some AttributeError)"
proof (induction prices)
  case Nil then show ?case by simp
next
  case (Cons x prices)
  obtain s0 d0 where x: "x = (s0, d0)" by (cases x)
  show ?case
  proof (cases "s0 \<in> set (user_symbols user) \<and> d0 \<noteq> []")
    case True
    then show ?thesis using Cons.prems(1) by (simp add: x Let_def)
  next
    case False
    then have "(symbol, d) \<in> set prices" using Cons.prems by (auto simp: x)
    from Cons.IH[OF Cons.prems(1) this Cons.prems(3,4)] False show ?thesis by (auto simp: x)
  qed
qed

lemma monitoring_loop_returns_only_on_stop:
  "monitoring_loop fuel env i s = Some s' \<Longrightarrow>
     \<exists>j\<ge>i. \<not> running (env j) \<and> (\<forall>k. i \<le> k \<and> k < j \<longrightarrow> running (env k))"
proof (induction fuel arbitrary: i s)
  case 0 then show ?case by simp
next
  case (Suc fuel)
  show ?case
  proof (cases "running (env i)")
    case False
    then show ?thesis by (intro exI[of _ i]) auto
  next
    case True
    then have "monitoring_loop fuel env (Suc i) (tick (env i) (Suc i) s) = Some s'"
      using Suc.prems by simp
    from Suc.IH[OF this] obtain j where j: "j \<ge> Suc i" "\<not> running (env j)"
      "\<forall>k. Suc i \<le> k \<and> k < j \<longrightarrow> running (env k)" by blast
    have "\<forall>k. i \<le> k \<and> k < j \<longrightarrow> running (env k)"
    proof (intro allI impI)
      fix k assume "i \<le> k \<and> k < j"
      then show "running (env k)" using True j(3) by (cases "k = i") auto
    qed
    with j show ?thesis by (intro exI[of _ j]) auto
  qed
qed

lemma monitoring_loop_stops_on_signal:
  "\<not> running (env j) \<Longrightarrow> i \<le> j \<Longrightarrow> j - i < fuel \<Longrightarrow>
     \<exists>s'. monitoring_loop fuel env i s = Some s'"
proof (induction fuel arbitrary: i s)
  case 0 then show ?case by simp
next
  case (Suc fuel)
  show ?case
  proof (cases "running (env i)")
    case False then show ?thesis by simp
  next
    case True
    then have "i \<noteq> j" using Suc.prems(1) by auto
    then have "Suc i \<le> j" "j - Suc i < fuel" using Suc.prems by auto
    from Suc.IH[OF Suc.prems(1) this] show ?thesis using True by simp
  qed
qed

text \<open>
  Claim C2, as amended. An exception raised while one tenant is processed is caught by the
  handler that wraps the whole pass of the loop: the pass ends there with the state as it
  was when the exception was raised, the error is printed, and the tenants after the
  failing one are not processed in that pass. The loop goes on with the next pass; it
  returns only when it reads the flag \<open>self.running\<close> as false, and it does return
  then, whatever was raised in the passes before.
\<close>

theorem tick_catches_at_loop_level:
  assumes active: "get_active_users (users s) = us1 @ u # us2"
    and fetch: "fetch_all_prices (adapters env) (pm_prices s)
                  (remdups (concat (map user_symbols (us1 @ u # us2)))) = Inr (prices, self_prices)"
    and before: "process_users (clock env) iteration prices us1
                   (s \<lparr> console := console s
                          @ [TickHeader iteration (length (us1 @ u # us2)),
                             FetchingPrices (length (remdups (concat (map user_symbols (us1 @ u # us2)))))],
                        pm_prices := self_prices \<rparr>) = (s1, None)"
    and raises: "process_user (clock env) iteration prices u s1 = (s2, Some e)"
  shows "tick env iteration s = s2 \<lparr> console := console s2 @ [LoopError e] \<rparr>
       \<and> (\<forall>fuel envs i s0 s'. monitoring_loop fuel envs i s0 = Some s' \<longrightarrow>
             (\<exists>j\<ge>i. \<not> running (envs j) \<and> (\<forall>k. i \<le> k \<and> k < j \<longrightarrow> running (envs k))))
       \<and> (\<forall>fuel envs i j s0. \<not> running (envs j) \<and> i \<le> j \<and> j - i < fuel \<longrightarrow>
             (\<exists>s'. monitoring_loop fuel envs i s0 = Some s'))"
proof -
  have ne: "us1 @ u # us2 \<noteq> []" by simp
  have ab: "process_users (clock env) iteration prices (us1 @ u # us2)
                   (s \<lparr> console := console s
                          @ [TickHeader iteration (length (us1 @ u # us2)),
                             FetchingPrices (length (remdups (concat (map user_symbols (us1 @ u # us2)))))],
                        pm_prices := self_prices \<rparr>) = (s2, Some e)"
    using process_users_abort[OF before raises] .
  have body: "tick_body env iteration s = (s2, Some e)"
    unfolding tick_body_def Let_def active
    using fetch ab by (simp del: process_users.simps)
  have t: "tick env iteration s = s2 \<lparr> console := console s2 @ [LoopError e] \<rparr>"
    by (simp add: tick_def body)
  have l1: "\<forall>fuel envs i s0 s'. monitoring_loop fuel envs i s0 = Some s' \<longrightarrow>
             (\<exists>j\<ge>i. \<not> running (envs j) \<and> (\<forall>k. i \<le> k \<and> k < j \<longrightarrow> running (envs k)))"
    using monitoring_loop_returns_only_on_stop by blast
  have l2: "\<forall>fuel envs i j s0. \<not> running (envs j) \<and> i \<le> j \<and> j - i < fuel \<longrightarrow>
             (\<exists>s'. monitoring_loop fuel envs i s0 = Some s')"
    using monitoring_loop_stops_on_signal by blast
  from t l1 l2 show ?thesis by blast
qed

lemma fetch_answering:
  "fetch_all_prices partial_failure_cycle [] [''BTC/USDT'', ''ETH/USDT'']
     = Inr (answered_table, answered_table)"
  by (simp add: fetch_all_prices_def partial_failure_cycle_def exchanges_def try_except_def
        set_quote_def answered_table_def)

theorem tick_catches_at_loop_level_witness:
  "tick (answering True) 1 two_tenants
     = two_tenants \<lparr> pm_prices := answered_table,
                     user_alert_managers := [''alice''],
                     console := [TickHeader 1 2, FetchingPrices 2, UserLine ''alice'',
                                 LoopError AttributeError] \<rparr>"
proof -
  let ?s1 = "two_tenants \<lparr> console := console two_tenants
                 @ [TickHeader 1 (length ([] @ tenant ''alice'' # [tenant ''bob''])),
                    FetchingPrices (length (remdups (concat (map user_symbols
                        ([] @ tenant ''alice'' # [tenant ''bob''])))))],
               pm_prices := answered_table \<rparr>"
  let ?s2 = "?s1 \<lparr> console := console ?s1 @ [UserLine ''alice''],
                   user_alert_managers := [''alice''] \<rparr>"
  have h1: "get_active_users (users two_tenants) = [] @ tenant ''alice'' # [tenant ''bob'']"
    by (simp add: two_tenants_def SaaSService_init_def get_active_users_def tenant_def)
  have h2: "fetch_all_prices (adapters (answering True)) (pm_prices two_tenants)
              (remdups (concat (map user_symbols ([] @ tenant ''alice'' # [tenant ''bob'']))))
            = Inr (answered_table, answered_table)"
    using fetch_answering
    by (simp add: answering_def two_tenants_def SaaSService_init_def tenant_def)
  have h3: "process_users (clock (answering True)) 1 answered_table [] ?s1 = (?s1, None)"
    by simp
  have h4: "process_user (clock (answering True)) 1 answered_table (tenant ''alice'') ?s1
            = (?s2, Some AttributeError)"
    by (simp add: process_user_def check_price_changes_for_user_def
          get_or_create_alert_manager_def two_tenants_def SaaSService_init_def tenant_def
          answered_table_def Let_def)
  from tick_catches_at_loop_level[OF h1 h2 h3 h4]
  show ?thesis
    by (simp add: two_tenants_def SaaSService_init_def tenant_def)
qed

text \<open>
  Claim C2 as stated fails: with two active tenants and a cycle in which the adapters
  answer, processing the first tenant raises \<open>AttributeError\<close> (the price monitor has
  no \<open>previous_prices\<close>); the pass prints the error and ends, and the second tenant is
  not processed.
\<close>

theorem tick_skips_remaining_tenants:
  "get_active_users (users two_tenants) = [tenant ''alice'', tenant ''bob'']
   \<and> console (tick (answering True) 1 two_tenants)
     = [TickHeader 1 2, FetchingPrices 2, UserLine ''alice'', LoopError AttributeError]
   \<and> user_alert_managers (tick (answering True) 1 two_tenants) = [''alice'']"
  by (simp add: tick_def tick_body_def two_tenants_def SaaSService_init_def tenant_def
      get_active_users_def answering_def fetch_all_prices_def partial_failure_cycle_def
      exchanges_def try_except_def set_quote_def process_user_def
      check_price_changes_for_user_def get_or_create_alert_manager_def Let_def quote_def)

end
